theory Spec2Isabelle
  imports Complex_Main "HOL-Library.AList"
begin

section \<open>JavaScript values\<close>

text \<open>
  The server handles untyped JSON: tool arguments, backend responses and LLM replies.
  A JavaScript number is either a finite value or one of the three non-finite ones;
  finite values are rationals here, which is exact for every operation the server
  performs on them (comparison with a literal, \<open>Math.max\<close>, \<open>Number.isFinite\<close>).
  An object is the list of its own properties in insertion order, each key once, as
  \<open>JSON.parse\<close> builds it. Strings are byte strings, a character beyond ASCII being its
  UTF-8 bytes.
\<close>

datatype jsnum = Fin rat | PosInf | NegInf | NaN

datatype json =
    JNull
  | JBool bool
  | JNum jsnum
  | JStr string
  | JArr "json list"
  | JObj "(string \<times> json) list"

text \<open>
  Thrown values: \<open>Error\<close> with its message, the engine's \<open>TypeError\<close> and \<open>SyntaxError\<close>,
  and the SDK's \<open>McpError\<close>, each with its message.
\<close>

datatype error =
    Error string
  | TypeError string
  | SyntaxError string
  | McpError string

text \<open>
  What the JavaScript runtime supplies and the repository does not define: the decimal
  rendering of a finite number (\<open>Number.prototype.toString\<close>), the reading of a string
  as a number (\<open>Number(s)\<close> on a string) and \<open>JSON.parse\<close>, which throws on text that is
  not JSON. They are parameters of the model.
\<close>

record runtime =
  numToString :: "rat \<Rightarrow> string"
  stringToNumber :: "string \<Rightarrow> jsnum"
  JSON_parse :: "string \<Rightarrow> error + json"

definition message :: "error \<Rightarrow> string" where
  "message e = (case e of Error m \<Rightarrow> m | TypeError m \<Rightarrow> m | SyntaxError m \<Rightarrow> m | McpError m \<Rightarrow> m)"

text \<open>Steps evaluated in order, of which the first that throws ends the evaluation.\<close>

fun collect :: "(error + 'a) list \<Rightarrow> error + 'a list" where
  "collect [] = Inr []"
| "collect (Inl e # rs) = Inl e"
| "collect (Inr x # rs) = (case collect rs of Inl e \<Rightarrow> Inl e | Inr xs \<Rightarrow> Inr (x # xs))"

subsection \<open>Coercions and operators\<close>

definition isFinite :: "jsnum \<Rightarrow> bool" where
  "isFinite n = (case n of Fin _ \<Rightarrow> True | _ \<Rightarrow> False)"

text \<open>\<open>Number.isFinite(v)\<close> on a possibly absent value: no coercion, only numbers qualify.\<close>

definition Number_isFinite :: "json option \<Rightarrow> bool" where
  "Number_isFinite v = (case v of Some (JNum n) \<Rightarrow> isFinite n | _ \<Rightarrow> False)"

text \<open>Truthiness of a value, as \<open>!v\<close>, \<open>v || d\<close> and \<open>if (v)\<close> read it.\<close>

fun truthy :: "json \<Rightarrow> bool" where
  "truthy JNull = False"
| "truthy (JBool b) = b"
| "truthy (JNum (Fin r)) = (r \<noteq> 0)"
| "truthy (JNum NaN) = False"
| "truthy (JNum _) = True"
| "truthy (JStr s) = (s \<noteq> [])"
| "truthy (JArr _) = True"
| "truthy (JObj _) = True"

text \<open>A property read yields \<open>None\<close> for \<open>undefined\<close>.\<close>

definition truthy_opt :: "json option \<Rightarrow> bool" where
  "truthy_opt v = (case v of None \<Rightarrow> False | Some x \<Rightarrow> truthy x)"

text \<open>
  \<open>obj?.[key]\<close> and \<open>obj[key]\<close> on a non-null value, for the keys the server reads (none of
  them is a built-in property of objects, strings, numbers or arrays): only objects
  carry them.
\<close>

definition lookup :: "json \<Rightarrow> string \<Rightarrow> json option" where
  "lookup v k = (case v of JObj kvs \<Rightarrow> map_of kvs k | _ \<Rightarrow> None)"

text \<open>\<open>a ?? b\<close>: the left operand unless it is \<open>null\<close> or \<open>undefined\<close>.\<close>

definition nullish :: "json option \<Rightarrow> bool" where
  "nullish v = (v = None \<or> v = Some JNull)"

definition coalesce :: "json option \<Rightarrow> json option \<Rightarrow> json option" where
  "coalesce a b = (if nullish a then b else a)"

definition num_String :: "runtime \<Rightarrow> jsnum \<Rightarrow> string" where
  "num_String R n = (case n of Fin r \<Rightarrow> numToString R r | PosInf \<Rightarrow> ''Infinity''
     | NegInf \<Rightarrow> ''-Infinity'' | NaN \<Rightarrow> ''NaN'')"

fun join :: "string \<Rightarrow> string list \<Rightarrow> string" where
  "join sep [] = []"
| "join sep [x] = x"
| "join sep (x # y # ys) = x @ sep @ join sep (y # ys)"

text \<open>
  The conversion of an object to a primitive calls its \<open>toString\<close>. An object built from
  JSON inherits the built-in one unless it has a property of that name itself, whose
  value is then never a function, and the conversion throws.
\<close>

definition cannot_convert :: error where
  "cannot_convert = TypeError ''Cannot convert object to primitive value''"

text \<open>
  \<open>String(v)\<close>, also what a template literal applies to an interpolated value. An array
  joins the strings of its elements with commas, \<open>null\<close> elements as empty.
\<close>

fun js_String :: "runtime \<Rightarrow> json \<Rightarrow> error + string" where
  "js_String R JNull = Inr ''null''"
| "js_String R (JBool b) = Inr (if b then ''true'' else ''false'')"
| "js_String R (JNum n) = Inr (num_String R n)"
| "js_String R (JStr s) = Inr s"
| "js_String R (JArr xs) =
     (case collect (map (\<lambda>x. if x = JNull then Inr [] else js_String R x) xs) of
        Inl e \<Rightarrow> Inl e
      | Inr ss \<Rightarrow> Inr (join '','' ss))"
| "js_String R (JObj kvs) =
     (if map_of kvs ''toString'' = None then Inr ''[object Object]'' else Inl cannot_convert)"

definition js_String_opt :: "runtime \<Rightarrow> json option \<Rightarrow> error + string" where
  "js_String_opt R v = (case v of None \<Rightarrow> Inr ''undefined'' | Some x \<Rightarrow> js_String R x)"

text \<open>
  \<open>Number(v)\<close>. Arrays and objects go through their string form; the built-in string of
  an object is not numeric.
\<close>

definition js_Number :: "runtime \<Rightarrow> json \<Rightarrow> error + jsnum" where
  "js_Number R v = (case v of
       JNull \<Rightarrow> Inr (Fin 0)
     | JBool b \<Rightarrow> Inr (if b then Fin 1 else Fin 0)
     | JNum n \<Rightarrow> Inr n
     | JStr s \<Rightarrow> Inr (stringToNumber R s)
     | JArr xs \<Rightarrow> map_sum id (stringToNumber R) (js_String R (JArr xs))
     | JObj kvs \<Rightarrow> (if map_of kvs ''toString'' = None then Inr NaN else Inl cannot_convert))"

definition js_Number_opt :: "runtime \<Rightarrow> json option \<Rightarrow> error + jsnum" where
  "js_Number_opt R v = (case v of None \<Rightarrow> Inr NaN | Some x \<Rightarrow> js_Number R x)"

text \<open>
  The white space and line terminators that \<open>trim\<close> removes, as UTF-8 byte sequences:
  U+0009 to U+000D, U+0020, U+00A0, U+1680, U+2000 to U+200A, U+2028, U+2029, U+202F,
  U+205F, U+3000 and U+FEFF.
\<close>

definition ws_seqs :: "string list" where
  "ws_seqs =
     map (\<lambda>b. [b]) [CHR 0x09, CHR 0x0A, CHR 0x0B, CHR 0x0C, CHR 0x0D, CHR 0x20]
     @ [[CHR 0xC2, CHR 0xA0], [CHR 0xE1, CHR 0x9A, CHR 0x80]]
     @ map (\<lambda>b. [CHR 0xE2, CHR 0x80, b])
         [CHR 0x80, CHR 0x81, CHR 0x82, CHR 0x83, CHR 0x84, CHR 0x85, CHR 0x86, CHR 0x87,
          CHR 0x88, CHR 0x89, CHR 0x8A, CHR 0xA8, CHR 0xA9, CHR 0xAF]
     @ [[CHR 0xE2, CHR 0x81, CHR 0x9F], [CHR 0xE3, CHR 0x80, CHR 0x80], [CHR 0xEF, CHR 0xBB, CHR 0xBF]]"

text \<open>Removes from the front of a string every leading occurrence of one of the sequences.\<close>

fun strip :: "string list \<Rightarrow> string \<Rightarrow> string" where
  "strip seqs [] = []"
| "strip seqs (c # cs) =
     (case List.find (\<lambda>q. q \<noteq> [] \<and> take (length q) (c # cs) = q) seqs of
        None \<Rightarrow> c # cs
      | Some q \<Rightarrow> strip seqs (drop (length q - 1) cs))"

text \<open>\<open>s.trim()\<close>: white space goes from the front, and from the back read backwards.\<close>

definition trim :: "string \<Rightarrow> string" where
  "trim s = rev (strip (map rev ws_seqs) (rev (strip ws_seqs s)))"

section \<open>Argument checks\<close>

definition requireString :: "json \<Rightarrow> string \<Rightarrow> error + string" where
  "requireString obj key = (case lookup obj key of
       Some (JStr v) \<Rightarrow>
         (if trim v = [] then Inl (Error (''Missing or invalid \"'' @ key @ ''\"''))
          else Inr (trim v))
     | _ \<Rightarrow> Inl (Error (''Missing or invalid \"'' @ key @ ''\"'')))"

definition hasNonEmptyString :: "json \<Rightarrow> string \<Rightarrow> bool" where
  "hasNonEmptyString obj key = (case lookup obj key of
       Some (JStr v) \<Rightarrow> trim v \<noteq> []
     | _ \<Rightarrow> False)"

section \<open>List payload normalizer\<close>

record payload =
  items :: "json list"
  total :: jsnum

definition len :: "json list \<Rightarrow> jsnum" where
  "len xs = Fin (of_nat (length xs))"

text \<open>
  The loop over the candidates: each pairs a key with the object to look in, and the
  first candidate whose object holds an array under its key ends the loop.
\<close>

fun first_candidate :: "(string \<times> json option) list \<Rightarrow> ((string \<times> json) list \<times> json list) option" where
  "first_candidate [] = None"
| "first_candidate ((key, obj) # cs) =
     (case obj of
        Some (JObj kvs) \<Rightarrow>
          (case map_of kvs key of
             Some (JArr xs) \<Rightarrow> Some (kvs, xs)
           | _ \<Rightarrow> first_candidate cs)
      | _ \<Rightarrow> first_candidate cs)"

definition candidates :: "json \<Rightarrow> (string \<times> json option) list" where
  "candidates result =
     [(''items'', Some result), (''data'', Some result), (''results'', Some result),
      (''rows'', Some result), (''projects'', Some result), (''items'', lookup result ''data'')]"

text \<open>
  \<open>Number(obj.total ?? obj.count ?? obj.totalCount ?? items.length)\<close>, then the test for
  a finite number.
\<close>

definition total_of :: "runtime \<Rightarrow> (string \<times> json) list \<Rightarrow> json list \<Rightarrow> error + jsnum" where
  "total_of R obj xs =
     (case js_Number_opt R
             (coalesce (coalesce (coalesce (map_of obj ''total'') (map_of obj ''count''))
                (map_of obj ''totalCount'')) (Some (JNum (len xs)))) of
        Inl e \<Rightarrow> Inl e
      | Inr t \<Rightarrow> Inr (if isFinite t then t else len xs))"

definition normalizeListPayload :: "runtime \<Rightarrow> json \<Rightarrow> error + payload" where
  "normalizeListPayload R result = (case result of
       JArr xs \<Rightarrow> Inr \<lparr>items = xs, total = len xs\<rparr>
     | JObj kvs \<Rightarrow>
         (case first_candidate (candidates result) of
            Some (obj, xs) \<Rightarrow>
              (case total_of R obj xs of
                 Inl e \<Rightarrow> Inl e
               | Inr t \<Rightarrow> Inr \<lparr>items = xs, total = t\<rparr>)
          | None \<Rightarrow> Inr \<lparr>items = [result], total = Fin 1\<rparr>)
     | _ \<Rightarrow> Inl (Error ''Invalid list payload: expected array or object''))"

section \<open>Conversational memory and the outside world\<close>

record memory =
  lastProject :: json
  lastSearchItems :: "json list"

datatype verb = GET | POST | PUT | DELETE

text \<open>
  A backend request: the collection \<open>/projects\<close> with its query parameters in order (an
  empty list is the bare path), or one project \<open>/projects/{id}\<close>. The base address and the
  key header come from the configuration and are the same for every request.
\<close>

datatype target = Projects "(string \<times> string) list" | Project string

datatype request = Request verb target "json option"

datatype call = Http request | OpenAI "json list" nat

text \<open>
  The collaborators are functions of an outside state \<open>'b\<close>, which every network call may
  change: \<open>http\<close> is the backend client (a thrown error, a timeout included, or the
  decoded body), \<open>openai\<close> the completion endpoint up to the decoded response body, given
  the messages and the token limit (the model name and the temperature are fixed at
  each call site), and \<open>random\<close> gives \<open>Math.floor(Math.random() * n)\<close>.
\<close>

record 'b sys =
  rt :: runtime
  OPENAI_API_KEY :: string
  http :: "'b \<Rightarrow> request \<Rightarrow> (error + json) \<times> 'b"
  openai :: "'b \<Rightarrow> json list \<Rightarrow> nat \<Rightarrow> (error + json) \<times> 'b"
  random :: "'b \<Rightarrow> nat \<Rightarrow> nat"

text \<open>The server's state: its memory, the outside state, and the network calls issued so far.\<close>

record 'b world =
  memory :: memory
  ext :: 'b
  calls :: "call list"

definition do_http :: "'b sys \<Rightarrow> request \<Rightarrow> 'b world \<Rightarrow> (error + json) \<times> 'b world" where
  "do_http S req w =
     (case http S (ext w) req of
        (res, b) \<Rightarrow> (res, w\<lparr>ext := b, calls := calls w @ [Http req]\<rparr>))"

text \<open>
  \<open>v?.[0]\<close>: the first element of an array, the property \<open>0\<close> of an object, the first
  character of a string (a string of its own, without further properties).
\<close>

definition index0 :: "json \<Rightarrow> json option" where
  "index0 v = (case v of
       JArr xs \<Rightarrow> (case xs of [] \<Rightarrow> None | x # _ \<Rightarrow> Some x)
     | JObj kvs \<Rightarrow> map_of kvs ''0''
     | JStr s \<Rightarrow> (case s of [] \<Rightarrow> None | c # _ \<Rightarrow> Some (JStr [c]))
     | _ \<Rightarrow> None)"

text \<open>\<open>json?.choices?.[0]?.message?.content ?? ''\<close>\<close>

definition reply :: "json \<Rightarrow> json" where
  "reply j =
     (case coalesce
             (Option.bind (Option.bind (Option.bind (lookup j ''choices'') index0)
                (\<lambda>c. lookup c ''message'')) (\<lambda>m. lookup m ''content''))
             (Some (JStr [])) of
        Some v \<Rightarrow> v
      | None \<Rightarrow> JStr [])"

definition callOpenAI :: "'b sys \<Rightarrow> json list \<Rightarrow> nat \<Rightarrow> 'b world \<Rightarrow> (error + json) \<times> 'b world" where
  "callOpenAI S messages max_tokens w =
     (if OPENAI_API_KEY S = [] then (Inl (Error ''Missing OPENAI_API_KEY in environment''), w)
      else
        (case openai S (ext w) messages max_tokens of
           (res, b) \<Rightarrow>
             (let w1 = w\<lparr>ext := b, calls := calls w @ [OpenAI messages max_tokens]\<rparr>
              in case res of
                   Inl e \<Rightarrow> (Inl e, w1)
                 | Inr j \<Rightarrow> (Inr (reply j), w1))))"

section \<open>Helpers that use the backend\<close>

text \<open>The name is whatever the caller passes; \<open>String(name)\<close> becomes the query.\<close>

definition searchFirstByName :: "'b sys \<Rightarrow> json option \<Rightarrow> 'b world \<Rightarrow> (error + json) \<times> 'b world" where
  "searchFirstByName S name w =
     (case js_String_opt (rt S) name of
        Inl e \<Rightarrow> (Inl e, w)
      | Inr q \<Rightarrow>
          (case do_http S (Request GET (Projects [(''q'', q), (''limit'', ''1'')]) None) w of
             (Inl e, w1) \<Rightarrow> (Inl e, w1)
           | (Inr result, w1) \<Rightarrow>
               (case normalizeListPayload (rt S) result of
                  Inl e \<Rightarrow> (Inl e, w1)
                | Inr p \<Rightarrow>
                    (Inr (case items p of
                            [] \<Rightarrow> JNull
                          | x # _ \<Rightarrow> (if truthy x then x else JNull)), w1))))"

definition fetchSomeProjects :: "'b sys \<Rightarrow> jsnum \<Rightarrow> 'b world \<Rightarrow> (error + json list) \<times> 'b world" where
  "fetchSomeProjects S limit w =
     (case do_http S (Request GET (Projects [(''limit'', num_String (rt S) limit)]) None) w of
        (Inl e, w1) \<Rightarrow> (Inl e, w1)
      | (Inr result, w1) \<Rightarrow>
          (case normalizeListPayload (rt S) result of
             Inl e \<Rightarrow> (Inl e, w1)
           | Inr p \<Rightarrow> (Inr (items p), w1)))"

section \<open>The tools\<close>

text \<open>
  A tool result is a sequence of content blocks, themselves JSON objects. Arguments are
  a JSON value that is never \<open>null\<close>: both transports replace a missing one by \<open>{}\<close>.
  A handler returns its result or the error it threw, and the state it leaves.
\<close>

definition text_block :: "string \<Rightarrow> json list" where
  "text_block t = [JObj [(''type'', JStr ''text''), (''text'', JStr t)]]"

definition json_block :: "json \<Rightarrow> json list" where
  "json_block v = [JObj [(''type'', JStr ''json''), (''json'', v)]]"

definition msg :: "string \<Rightarrow> string \<Rightarrow> json" where
  "msg role content = JObj [(''role'', JStr role), (''content'', JStr content)]"

definition en_dash :: string where
  "en_dash = [CHR 0xE2, CHR 0x80, CHR 0x93]"

text \<open>\<open>v || null\<close>\<close>

definition or_null :: "json \<Rightarrow> json" where
  "or_null v = (if truthy v then v else JNull)"

text \<open>\<open>a || b\<close> with a possibly absent left operand.\<close>

definition or_else :: "json option \<Rightarrow> json \<Rightarrow> json" where
  "or_else a b = (case a of Some v \<Rightarrow> (if truthy v then v else b) | None \<Rightarrow> b)"

text \<open>\<open>...(args[k] ? { k: String(args[k]) } : {})\<close>\<close>

definition opt_field :: "runtime \<Rightarrow> json \<Rightarrow> string \<Rightarrow> error + (string \<times> json) list" where
  "opt_field R args k =
     (if truthy_opt (lookup args k)
      then map_sum id (\<lambda>s. [(k, JStr s)]) (js_String_opt R (lookup args k))
      else Inr [])"

text \<open>\<open>obj.k = v\<close> on an object: an existing key keeps its place, a new one goes last.\<close>

definition set_prop :: "json \<Rightarrow> string \<Rightarrow> json \<Rightarrow> json" where
  "set_prop obj k v = (case obj of JObj kvs \<Rightarrow> JObj (AList.update k v kvs) | _ \<Rightarrow> obj)"

text \<open>\<open>!id\<close> for the identifier being resolved, \<open>null\<close> or a string.\<close>

definition no_id :: "string option \<Rightarrow> bool" where
  "no_id i = (case i of None \<Rightarrow> True | Some s \<Rightarrow> s = [])"

definition first_item_id :: "json list \<Rightarrow> json option" where
  "first_item_id xs = (case xs of [] \<Rightarrow> None | x # _ \<Rightarrow> lookup x ''id'')"

definition first_item_name :: "json list \<Rightarrow> json option" where
  "first_item_name xs = (case xs of [] \<Rightarrow> None | x # _ \<Rightarrow> lookup x ''projectName'')"

definition provide_msg :: string where
  "provide_msg = ''Provide either \"id\" or \"projectName\", or run a search/get first.''"

subsection \<open>ai.summarize\<close>

definition ai_summarize :: "'b sys \<Rightarrow> json \<Rightarrow> 'b world \<Rightarrow> (error + json list) \<times> 'b world" where
  "ai_summarize S args w =
     (case requireString args ''text'' of
        Inl e \<Rightarrow> (Inl e, w)
      | Inr input \<Rightarrow>
          (if OPENAI_API_KEY S = []
           then (Inl (Error ''OpenAI is not configured. Set OPENAI_API_KEY in .env.''), w)
           else
             (case callOpenAI S
                     [msg ''system'' (''You are a concise assistant. Summarize the text into 1''
                        @ en_dash @ ''3 short bullet points.''),
                      msg ''user'' input] 180 w of
                (Inl e, w1) \<Rightarrow> (Inl e, w1)
              | (Inr summary, w1) \<Rightarrow>
                  (Inr [JObj [(''type'', JStr ''text''), (''text'', summary)]], w1))))"

subsection \<open>projects.create\<close>

definition projects_create :: "'b sys \<Rightarrow> json \<Rightarrow> 'b world \<Rightarrow> (error + json list) \<times> 'b world" where
  "projects_create S args w =
     (case requireString args ''projectName'' of Inl e \<Rightarrow> (Inl e, w) | Inr projectName \<Rightarrow>
      case requireString args ''address'' of Inl e \<Rightarrow> (Inl e, w) | Inr address \<Rightarrow>
      case requireString args ''zoningCode'' of Inl e \<Rightarrow> (Inl e, w) | Inr zoningCode \<Rightarrow>
      case requireString args ''zoneType'' of Inl e \<Rightarrow> (Inl e, w) | Inr zoneType \<Rightarrow>
      case opt_field (rt S) args ''notes'' of Inl e \<Rightarrow> (Inl e, w) | Inr notes \<Rightarrow>
        (let body = JObj ([(''projectName'', JStr projectName), (''address'', JStr address),
                           (''zoningCode'', JStr zoningCode), (''zoneType'', JStr zoneType)]
                          @ notes)
         in case do_http S (Request POST (Projects []) (Some body)) w of
              (Inl e, w1) \<Rightarrow> (Inl e, w1)
            | (Inr created, w1) \<Rightarrow>
                (Inr (json_block created),
                 w1\<lparr>memory := (memory w1)\<lparr>lastProject := or_null created\<rparr>\<rparr>)))"

subsection \<open>projects.get\<close>

text \<open>
  The identifier resolution at the head of the handler, up to its last \<open>throw\<close>. The
  variable \<open>id\<close> is \<open>null\<close> or a string; each later step runs only while \<open>!id\<close> holds.
\<close>

definition get_resolve_id :: "'b sys \<Rightarrow> json \<Rightarrow> 'b world \<Rightarrow> (error + string) \<times> 'b world" where
  "get_resolve_id S args w =
     (case (if hasNonEmptyString args ''id''
            then map_sum id Some (js_String_opt (rt S) (lookup args ''id''))
            else Inr None) of
        Inl e \<Rightarrow> (Inl e, w)
      | Inr id0 \<Rightarrow>
     (case (if no_id id0 \<and> hasNonEmptyString args ''projectName''
            then
              (case searchFirstByName S (lookup args ''projectName'') w of
                 (Inl e, w1) \<Rightarrow> (Inl e, w1)
               | (Inr found, w1) \<Rightarrow>
                   (if \<not> truthy found
                    then
                      (case js_String_opt (rt S) (lookup args ''projectName'') of
                         Inl e \<Rightarrow> (Inl e, w1)
                       | Inr n \<Rightarrow> (Inl (Error (''Project not found by name: '' @ n)), w1))
                    else
                      (case js_String_opt (rt S)
                              (coalesce (lookup found ''id'') (lookup found ''projectId'')) of
                         Inl e \<Rightarrow> (Inl e, w1)
                       | Inr i \<Rightarrow> (Inr (Some i), w1))))
            else (Inr id0, w)) of
        (Inl e, w1) \<Rightarrow> (Inl e, w1)
      | (Inr id1, w1) \<Rightarrow>
     (case (if no_id id1 \<and> truthy_opt (lookup (lastProject (memory w1)) ''id'')
            then map_sum id Some (js_String_opt (rt S) (lookup (lastProject (memory w1)) ''id''))
            else Inr id1) of
        Inl e \<Rightarrow> (Inl e, w1)
      | Inr id2 \<Rightarrow>
     (case (if no_id id2 \<and> truthy_opt (first_item_id (lastSearchItems (memory w1)))
            then map_sum id Some (js_String_opt (rt S) (first_item_id (lastSearchItems (memory w1))))
            else Inr id2) of
        Inl e \<Rightarrow> (Inl e, w1)
      | Inr id3 \<Rightarrow>
          (case id3 of
             None \<Rightarrow> (Inl (Error provide_msg), w1)
           | Some i \<Rightarrow> (if i = [] then (Inl (Error provide_msg), w1) else (Inr i, w1)))))))"

text \<open>
  \<open>String(e?.message || e)\<close> in a \<open>catch\<close>: the message, or the error's name when the message
  is empty.
\<close>

definition caught_string :: "error \<Rightarrow> string" where
  "caught_string e =
     (if message e \<noteq> [] then message e
      else (case e of Error _ \<Rightarrow> ''Error'' | TypeError _ \<Rightarrow> ''TypeError''
              | SyntaxError _ \<Rightarrow> ''SyntaxError'' | McpError _ \<Rightarrow> ''McpError''))"

text \<open>
  The best-effort notes summary between the fetch and the memory write. Everything from
  the building of the prompt, which converts the notes to a string, to the assignment
  of the summary is inside the \<open>try\<close>.
\<close>

definition summarize_notes :: "'b sys \<Rightarrow> json \<Rightarrow> 'b world \<Rightarrow> json \<times> 'b world" where
  "summarize_notes S project w =
     (if OPENAI_API_KEY S \<noteq> [] \<and> truthy_opt (lookup project ''notes'')
      then
        (case js_String_opt (rt S) (lookup project ''notes'') of
           Inl e \<Rightarrow> (set_prop project ''notes_summary_error'' (JStr (caught_string e)), w)
         | Inr notes \<Rightarrow>
             (case callOpenAI S
                     [msg ''system'' (''You are a concise summarizer. Summarize the project notes into 1''
                        @ en_dash @ ''2 sentences.''),
                      msg ''user'' notes] 120 w of
                (Inr summary, w1) \<Rightarrow> (set_prop project ''notes_summary'' summary, w1)
              | (Inl e, w1) \<Rightarrow>
                  (set_prop project ''notes_summary_error'' (JStr (caught_string e)), w1)))
      else (project, w))"

definition projects_get :: "'b sys \<Rightarrow> json \<Rightarrow> 'b world \<Rightarrow> (error + json list) \<times> 'b world" where
  "projects_get S args w =
     (case get_resolve_id S args w of
        (Inl e, w1) \<Rightarrow> (Inl e, w1)
      | (Inr i, w1) \<Rightarrow>
          (case do_http S (Request GET (Project i) None) w1 of
             (Inl e, w2) \<Rightarrow> (Inl e, w2)
           | (Inr fetched, w2) \<Rightarrow>
               (case summarize_notes S fetched w2 of
                  (project, w3) \<Rightarrow>
                    (Inr (json_block project),
                     w3\<lparr>memory := (memory w3)\<lparr>lastProject := or_null project\<rparr>\<rparr>))))"

subsection \<open>projects.update\<close>

definition projects_update :: "'b sys \<Rightarrow> json \<Rightarrow> 'b world \<Rightarrow> (error + json list) \<times> 'b world" where
  "projects_update S args w =
     (case requireString args ''id'' of
        Inl e \<Rightarrow> (Inl e, w)
      | Inr i \<Rightarrow>
          (case collect (map (opt_field (rt S) args)
                           [''projectName'', ''address'', ''zoningCode'', ''zoneType'', ''notes'']) of
             Inl e \<Rightarrow> (Inl e, w)
           | Inr present \<Rightarrow>
               (case do_http S (Request PUT (Project i) (Some (JObj (concat present)))) w of
                  (Inl e, w1) \<Rightarrow> (Inl e, w1)
                | (Inr updated, w1) \<Rightarrow>
                    (Inr (json_block updated),
                     w1\<lparr>memory := (memory w1)\<lparr>lastProject := or_null updated\<rparr>\<rparr>))))"

subsection \<open>projects.delete\<close>

text \<open>
  The same resolution, carrying the display name \<open>nameUsed\<close> (\<open>null\<close> at first) alongside.
\<close>

definition delete_resolve_id :: "'b sys \<Rightarrow> json \<Rightarrow> 'b world \<Rightarrow> (error + string \<times> json) \<times> 'b world" where
  "delete_resolve_id S args w =
     (case (if hasNonEmptyString args ''id''
            then map_sum id Some (js_String_opt (rt S) (lookup args ''id''))
            else Inr None) of
        Inl e \<Rightarrow> (Inl e, w)
      | Inr id0 \<Rightarrow>
     (case (if no_id id0 \<and> hasNonEmptyString args ''projectName''
            then
              (case js_String_opt (rt S) (lookup args ''projectName'') of
                 Inl e \<Rightarrow> (Inl e, w)
               | Inr nameUsed \<Rightarrow>
                   (case searchFirstByName S (Some (JStr nameUsed)) w of
                      (Inl e, w1) \<Rightarrow> (Inl e, w1)
                    | (Inr found, w1) \<Rightarrow>
                        (if \<not> truthy found
                         then (Inl (Error (''Project not found by name: '' @ nameUsed)), w1)
                         else
                           (case js_String_opt (rt S)
                                   (coalesce (lookup found ''id'') (lookup found ''projectId'')) of
                              Inl e \<Rightarrow> (Inl e, w1)
                            | Inr i \<Rightarrow> (Inr (Some i, JStr nameUsed), w1)))))
            else (Inr (id0, JNull), w)) of
        (Inl e, w1) \<Rightarrow> (Inl e, w1)
      | (Inr (id1, name1), w1) \<Rightarrow>
     (case (if no_id id1 \<and> truthy_opt (lookup (lastProject (memory w1)) ''id'')
            then map_sum id
                   (\<lambda>i. (Some i, or_else (lookup (lastProject (memory w1)) ''projectName'') name1))
                   (js_String_opt (rt S) (lookup (lastProject (memory w1)) ''id''))
            else Inr (id1, name1)) of
        Inl e \<Rightarrow> (Inl e, w1)
      | Inr (id2, name2) \<Rightarrow>
     (case (if no_id id2 \<and> truthy_opt (first_item_id (lastSearchItems (memory w1)))
            then map_sum id
                   (\<lambda>i. (Some i, or_else (first_item_name (lastSearchItems (memory w1))) name2))
                   (js_String_opt (rt S) (first_item_id (lastSearchItems (memory w1))))
            else Inr (id2, name2)) of
        Inl e \<Rightarrow> (Inl e, w1)
      | Inr (id3, name3) \<Rightarrow>
          (case id3 of
             None \<Rightarrow> (Inl (Error provide_msg), w1)
           | Some i \<Rightarrow>
               (if i = [] then (Inl (Error provide_msg), w1) else (Inr (i, name3), w1)))))))"

text \<open>
  The confirmation text is built after the backend call and after \<open>lastProject\<close> is
  cleared; its template converts the display name to a string.
\<close>

definition projects_delete :: "'b sys \<Rightarrow> json \<Rightarrow> 'b world \<Rightarrow> (error + json list) \<times> 'b world" where
  "projects_delete S args w =
     (case delete_resolve_id S args w of
        (Inl e, w1) \<Rightarrow> (Inl e, w1)
      | (Inr (i, nameUsed), w1) \<Rightarrow>
          (case do_http S (Request DELETE (Project i) None) w1 of
             (Inl e, w2) \<Rightarrow> (Inl e, w2)
           | (Inr _, w2) \<Rightarrow>
               (let w3 = w2\<lparr>memory := (memory w2)\<lparr>lastProject := JNull\<rparr>\<rparr>
                in if truthy nameUsed
                   then
                     (case js_String (rt S) nameUsed of
                        Inl e \<Rightarrow> (Inl e, w3)
                      | Inr n \<Rightarrow>
                          (Inr (text_block (''Deleted project \"'' @ n @ ''\" (id: '' @ i @ '').'')), w3))
                   else (Inr (text_block (''Deleted project '' @ i @ ''.'')), w3))))"

subsection \<open>projects.deleteRandom\<close>

text \<open>\<open>Math.max(1, n)\<close>\<close>

definition Math_max1 :: "jsnum \<Rightarrow> jsnum" where
  "Math_max1 n = (case n of Fin r \<Rightarrow> Fin (max 1 r) | PosInf \<Rightarrow> PosInf | NegInf \<Rightarrow> Fin 1 | NaN \<Rightarrow> NaN)"

definition batchLimit :: "runtime \<Rightarrow> json \<Rightarrow> error + jsnum" where
  "batchLimit R args =
     (if Number_isFinite (lookup args ''limit'')
      then map_sum id Math_max1 (js_Number_opt R (lookup args ''limit''))
      else Inr (Fin 25))"

definition null_read :: "string \<Rightarrow> error" where
  "null_read k = TypeError (''Cannot read properties of null (reading '' @ [CHR 0x27] @ k @ [CHR 0x27] @ '')'')"

definition undefined_read :: "string \<Rightarrow> error" where
  "undefined_read k = TypeError (''Cannot read properties of undefined (reading '' @ [CHR 0x27] @ k @ [CHR 0x27] @ '')'')"

definition projects_deleteRandom :: "'b sys \<Rightarrow> json \<Rightarrow> 'b world \<Rightarrow> (error + json list) \<times> 'b world" where
  "projects_deleteRandom S args w =
     (case batchLimit (rt S) args of
        Inl e \<Rightarrow> (Inl e, w)
      | Inr limit \<Rightarrow>
     (case fetchSomeProjects S limit w of
        (Inl e, w1) \<Rightarrow> (Inl e, w1)
      | (Inr xs, w1) \<Rightarrow>
          (if xs = [] then (Inl (Error ''No projects available to delete.''), w1)
           else
             (let n = random S (ext w1) (length xs)
              in if \<not> n < length xs then (Inl (undefined_read ''id''), w1)
                 else
                   (let pick = xs ! n
                    in if pick = JNull then (Inl (null_read ''id''), w1)
                       else
                         (case js_String_opt (rt S)
                                 (coalesce (lookup pick ''id'') (lookup pick ''projectId'')) of
                            Inl e \<Rightarrow> (Inl e, w1)
                          | Inr i \<Rightarrow>
                              (let name = coalesce (coalesce (lookup pick ''projectName'') (lookup pick ''name''))
                                            (Some (JStr ''(unnamed)''))
                               in case do_http S (Request DELETE (Project i) None) w1 of
                                    (Inl e, w2) \<Rightarrow> (Inl e, w2)
                                  | (Inr _, w2) \<Rightarrow>
                                      (let w3 = w2\<lparr>memory := (memory w2)\<lparr>lastProject := JNull\<rparr>\<rparr>
                                       in case js_String_opt (rt S) name of
                                            Inl e \<Rightarrow> (Inl e, w3)
                                          | Inr n \<Rightarrow>
                                              (Inr (text_block (''Deleted random project \"'' @ n
                                                      @ ''\" (id: '' @ i @ '').'')), w3)))))))))"

subsection \<open>projects.search\<close>

text \<open>The query parameters in the order they are set; a value that cannot be converted throws.\<close>

definition search_params :: "runtime \<Rightarrow> json \<Rightarrow> error + (string \<times> string) list" where
  "search_params R args =
     map_sum id concat
       (collect
          (map (\<lambda>key. if truthy_opt (lookup args key)
                       then map_sum id (\<lambda>s. [(key, s)]) (js_String_opt R (lookup args key))
                       else Inr [])
             [''q'', ''zoning_code'', ''zone_type'', ''address'', ''city'', ''state'']
           @ map (\<lambda>key. if Number_isFinite (lookup args key)
                         then map_sum id (\<lambda>s. [(key, s)]) (js_String_opt R (lookup args key))
                         else Inr [])
               [''page'', ''limit'']))"

definition payload_json :: "payload \<Rightarrow> json" where
  "payload_json p = JObj [(''items'', JArr (items p)), (''total'', JNum (total p))]"

definition projects_search :: "'b sys \<Rightarrow> json \<Rightarrow> 'b world \<Rightarrow> (error + json list) \<times> 'b world" where
  "projects_search S args w =
     (case search_params (rt S) args of
        Inl e \<Rightarrow> (Inl e, w)
      | Inr params \<Rightarrow>
          (case do_http S (Request GET (Projects params) None) w of
             (Inl e, w1) \<Rightarrow> (Inl e, w1)
           | (Inr result, w1) \<Rightarrow>
               (case normalizeListPayload (rt S) result of
                  Inl e \<Rightarrow> (Inl e, w1)
                | Inr p \<Rightarrow>
                    (Inr (json_block (payload_json p)),
                     w1\<lparr>memory := (memory w1)\<lparr>lastSearchItems := items p\<rparr>\<rparr>))))"

subsection \<open>The dispatcher\<close>

text \<open>
  The SDK's \<open>McpError\<close> prefixes its message with the error code, \<open>-32601\<close> for
  \<open>MethodNotFound\<close>.
\<close>

definition runTool :: "'b sys \<Rightarrow> string \<Rightarrow> json \<Rightarrow> 'b world \<Rightarrow> (error + json list) \<times> 'b world" where
  "runTool S name args w =
     (if name = ''ai.summarize'' then ai_summarize S args w
      else if name = ''projects.create'' then projects_create S args w
      else if name = ''projects.get'' then projects_get S args w
      else if name = ''projects.update'' then projects_update S args w
      else if name = ''projects.delete'' then projects_delete S args w
      else if name = ''projects.deleteRandom'' then projects_deleteRandom S args w
      else if name = ''projects.search'' then projects_search S args w
      else (Inl (McpError (''MCP error -32601: Unknown tool: '' @ name)), w))"

section \<open>Human-friendly rendering of a search result\<close>

definition em_dash :: string where
  "em_dash = [CHR 0xE2, CHR 0x80, CHR 0x94]"

definition escape_pipes :: "string \<Rightarrow> string" where
  "escape_pipes s = concat (map (\<lambda>c. if c = CHR ''|'' then [CHR 0x5C, CHR ''|''] else [c]) s)"

text \<open>\<open>String(s ?? '').replace(/\|/g, '\\|')\<close>\<close>

definition mdEscape :: "runtime \<Rightarrow> json option \<Rightarrow> error + string" where
  "mdEscape R s = map_sum id escape_pipes (js_String_opt R (coalesce s (Some (JStr []))))"

text \<open>
  The callback of \<open>items.slice(0, 5).map\<close>: reading a field of a \<open>null\<close> item throws, and
  the template escapes the five values from left to right.
\<close>

definition render_row :: "runtime \<Rightarrow> json \<Rightarrow> error + string" where
  "render_row R p =
     (if p = JNull then Inl (null_read ''projectName'')
      else
        (let name = coalesce (coalesce (lookup p ''projectName'') (lookup p ''name'')) (Some (JStr em_dash));
             addr = coalesce (lookup p ''address'') (Some (JStr em_dash));
             zc = coalesce (coalesce (lookup p ''zoningCode'') (lookup p ''zoning_code'')) (Some (JStr em_dash));
             zt = coalesce (coalesce (lookup p ''zoneType'') (lookup p ''zone_type'')) (Some (JStr em_dash));
             i = coalesce (coalesce (lookup p ''id'') (lookup p ''projectId'')) (Some (JStr em_dash))
         in case mdEscape R name of Inl e \<Rightarrow> Inl e | Inr c1 \<Rightarrow>
            case mdEscape R addr of Inl e \<Rightarrow> Inl e | Inr c2 \<Rightarrow>
            case mdEscape R zc of Inl e \<Rightarrow> Inl e | Inr c3 \<Rightarrow>
            case mdEscape R zt of Inl e \<Rightarrow> Inl e | Inr c4 \<Rightarrow>
            case mdEscape R i of Inl e \<Rightarrow> Inl e | Inr c5 \<Rightarrow>
              Inr (''| '' @ c1 @ '' | '' @ c2 @ '' | '' @ c3 @ '' | '' @ c4 @ '' | `'' @ c5 @ ''` |'')))"

definition table_head :: string where
  "table_head = ''| Project | Address | Zoning | Zone Type | ID |'' @ [CHR 0x0A] @ ''|---|---|---|---|---|''"

text \<open>\<open>total > 5\<close>\<close>

definition gt5 :: "jsnum \<Rightarrow> bool" where
  "gt5 n = (case n of Fin r \<Rightarrow> 5 < r | PosInf \<Rightarrow> True | _ \<Rightarrow> False)"

definition more_note :: "runtime \<Rightarrow> jsnum \<Rightarrow> string" where
  "more_note R t =
     (if gt5 t then [CHR 0x0A, CHR 0x0A] @ ''_Showing 5 of '' @ num_String R t @ '' results._'' else [])"

text \<open>
  \<open>renderSearch\<close> on a normalized payload, the only value the search tool hands to it:
  both fields are present, so the defaults of the destructuring never apply.
\<close>

definition renderSearch :: "runtime \<Rightarrow> payload \<Rightarrow> error + string" where
  "renderSearch R json =
     (if items json = [] then Inr ''No matching projects found.''
      else
        (case collect (map (render_row R) (take 5 (items json))) of
           Inl e \<Rightarrow> Inl e
         | Inr rows \<Rightarrow>
             Inr (''**Found '' @ num_String R (total json) @ '' project''
                  @ (if total json = Fin 1 then [] else ''s'') @ ''**'' @ [CHR 0x0A, CHR 0x0A]
                  @ table_head @ [CHR 0x0A] @ join [CHR 0x0A] rows @ more_note R (total json))))"

section \<open>Reading the router's plan\<close>

text \<open>
  The match of \<open>/\{[\s\S]*\}/\<close>: it starts at the first opening brace and, the star being
  greedy, ends at the last closing brace after it; there is none without such a pair.
\<close>

definition brace_match :: "string \<Rightarrow> string option" where
  "brace_match s =
     (let m = rev (dropWhile (\<lambda>c. c \<noteq> CHR ''}'') (rev (dropWhile (\<lambda>c. c \<noteq> CHR ''{'') s)))
      in if m = [] then None else Some m)"

definition parse_plan :: "runtime \<Rightarrow> string \<Rightarrow> error + json" where
  "parse_plan R toolPlanText =
     (case JSON_parse R toolPlanText of
        Inr plan \<Rightarrow> Inr plan
      | Inl _ \<Rightarrow>
          (case brace_match toolPlanText of
             None \<Rightarrow> Inl (Error ''Router did not return JSON'')
           | Some m \<Rightarrow> JSON_parse R m))"

section \<open>The normalizer as the claim words it\<close>

text \<open>
  The claim about the normalizer, read literally: an array is wrapped; anything else
  that is not an object fails; an object is probed for the first of \<open>items\<close>, \<open>data\<close>,
  \<open>results\<close>, \<open>rows\<close>, \<open>projects\<close> on itself and then \<open>items\<close> under its \<open>data\<close> that holds
  an array; the total is the first present among \<open>total\<close>, \<open>count\<close>, \<open>totalCount\<close> of the
  object that matched, else the length, coerced to a number, and the length again when
  the coercion gives no finite number; with no match the value is the single item. It
  names one failure, that of a value that is not an object.
\<close>

definition arr_at :: "(string \<times> json) list \<Rightarrow> string \<Rightarrow> json list option" where
  "arr_at obj k = (case map_of obj k of Some (JArr xs) \<Rightarrow> Some xs | _ \<Rightarrow> None)"

definition spec_probes :: "(string \<times> json) list \<Rightarrow> ((string \<times> json) list \<times> string) list" where
  "spec_probes whole =
     map (\<lambda>k. (whole, k)) [''items'', ''data'', ''results'', ''rows'', ''projects'']
     @ (case map_of whole ''data'' of Some (JObj d) \<Rightarrow> [(d, ''items'')] | _ \<Rightarrow> [])"

definition probe_match :: "(string \<times> json) list \<Rightarrow> ((string \<times> json) list \<times> json list) option" where
  "probe_match whole =
     (case List.find (\<lambda>(obj, k). arr_at obj k \<noteq> None) (spec_probes whole) of
        Some (obj, k) \<Rightarrow> (case arr_at obj k of Some xs \<Rightarrow> Some (obj, xs) | None \<Rightarrow> None)
      | None \<Rightarrow> None)"

definition given_total :: "(string \<times> json) list \<Rightarrow> json list \<Rightarrow> json" where
  "given_total obj xs =
     (case List.find (\<lambda>v. \<not> nullish v)
             [map_of obj ''total'', map_of obj ''count'', map_of obj ''totalCount''] of
        Some (Some v) \<Rightarrow> v
      | _ \<Rightarrow> JNum (len xs))"

definition normalize_as_claimed :: "runtime \<Rightarrow> json \<Rightarrow> error + payload" where
  "normalize_as_claimed R v = (case v of
       JArr xs \<Rightarrow> Inr \<lparr>items = xs, total = len xs\<rparr>
     | JObj whole \<Rightarrow>
         (case probe_match whole of
            Some (obj, xs) \<Rightarrow>
              Inr \<lparr>items = xs,
                   total = (case js_Number R (given_total obj xs) of
                              Inr n \<Rightarrow> (if isFinite n then n else len xs)
                            | Inl _ \<Rightarrow> len xs)\<rparr>
          | None \<Rightarrow> Inr \<lparr>items = [v], total = Fin 1\<rparr>)
     | _ \<Rightarrow> Inl (Error ''Invalid list payload: expected array or object''))"

section \<open>Identifier resolution as an ordered list of tiers\<close>

text \<open>
  The claim about identifier resolution speaks of tiers tried in order, the first
  success winning. A tier yields an identifier, passes, or fails the call. The four
  tiers are the explicit \<open>id\<close> argument, the search by the \<open>projectName\<close> argument, the
  remembered project and the first remembered search item; when all pass the call
  fails with the message that asks for an id or a name. \<open>first_success\<close> takes what counts
  as a success: for the claim every identifier a tier yields, for the code only a
  non-empty one.
\<close>

datatype attempt = Yields string | Passes | Fails error

definition tier_explicit_id :: "json \<Rightarrow> 'w \<Rightarrow> attempt \<times> 'w" where
  "tier_explicit_id args w =
     (case lookup args ''id'' of
        Some (JStr s) \<Rightarrow> (if trim s \<noteq> [] then (Yields s, w) else (Passes, w))
      | _ \<Rightarrow> (Passes, w))"

definition tier_name_search :: "'b sys \<Rightarrow> json \<Rightarrow> 'b world \<Rightarrow> attempt \<times> 'b world" where
  "tier_name_search S args w =
     (case lookup args ''projectName'' of
        Some (JStr n) \<Rightarrow>
          (if trim n = [] then (Passes, w)
           else
             (case http S (ext w) (Request GET (Projects [(''q'', n), (''limit'', ''1'')]) None) of
                (res, b) \<Rightarrow>
                  (let w1 = w\<lparr>ext := b,
                               calls := calls w @ [Http (Request GET (Projects [(''q'', n), (''limit'', ''1'')]) None)]\<rparr>
                   in case res of
                        Inl e \<Rightarrow> (Fails e, w1)
                      | Inr result \<Rightarrow>
                          (case normalizeListPayload (rt S) result of
                             Inl e \<Rightarrow> (Fails e, w1)
                           | Inr p \<Rightarrow>
                               (case items p of
                                  [] \<Rightarrow> (Fails (Error (''Project not found by name: '' @ n)), w1)
                                | found # _ \<Rightarrow>
                                    (if \<not> truthy found
                                     then (Fails (Error (''Project not found by name: '' @ n)), w1)
                                     else
                                       (case js_String_opt (rt S)
                                               (if nullish (lookup found ''id'')
                                                then lookup found ''projectId'' else lookup found ''id'') of
                                          Inl e \<Rightarrow> (Fails e, w1)
                                        | Inr i \<Rightarrow> (Yields i, w1))))))))
      | _ \<Rightarrow> (Passes, w))"

definition tier_of_value :: "runtime \<Rightarrow> json option \<Rightarrow> attempt" where
  "tier_of_value R v =
     (case v of
        None \<Rightarrow> Passes
      | Some x \<Rightarrow>
          (if truthy x
           then (case js_String R x of Inl e \<Rightarrow> Fails e | Inr i \<Rightarrow> Yields i)
           else Passes))"

definition tier_lastEntity :: "'b sys \<Rightarrow> 'b world \<Rightarrow> attempt \<times> 'b world" where
  "tier_lastEntity S w =
     (tier_of_value (rt S)
        (case lastProject (memory w) of JObj kvs \<Rightarrow> map_of kvs ''id'' | _ \<Rightarrow> None), w)"

definition tier_lastSearch :: "'b sys \<Rightarrow> 'b world \<Rightarrow> attempt \<times> 'b world" where
  "tier_lastSearch S w =
     (tier_of_value (rt S)
        (case lastSearchItems (memory w) of
           JObj kvs # _ \<Rightarrow> map_of kvs ''id''
         | _ \<Rightarrow> None), w)"

fun first_success ::
  "(string \<Rightarrow> bool) \<Rightarrow> ('w \<Rightarrow> attempt \<times> 'w) list \<Rightarrow> 'w \<Rightarrow> (error + string) \<times> 'w" where
  "first_success wins [] w =
     (Inl (Error ''Provide either \"id\" or \"projectName\", or run a search/get first.''), w)"
| "first_success wins (t # ts) w =
     (case t w of
        (Yields i, w1) \<Rightarrow> (if wins i then (Inr i, w1) else first_success wins ts w1)
      | (Passes, w1) \<Rightarrow> first_success wins ts w1
      | (Fails e, w1) \<Rightarrow> (Inl e, w1))"

definition tiers :: "'b sys \<Rightarrow> json \<Rightarrow> ('b world \<Rightarrow> attempt \<times> 'b world) list" where
  "tiers S args = [tier_explicit_id args, tier_name_search S args, tier_lastEntity S, tier_lastSearch S]"

section \<open>The batch size as the claim words it\<close>

text \<open>25 when the limit is absent or not a finite number, otherwise the larger of 1 and the limit.\<close>

definition batch_size :: "json \<Rightarrow> jsnum" where
  "batch_size args =
     (case lookup args ''limit'' of Some (JNum (Fin r)) \<Rightarrow> Fin (max 1 r) | _ \<Rightarrow> Fin 25)"

section \<open>The plan extraction as the claim words it\<close>

text \<open>
  The claim about the router's reply speaks of the first balanced-brace substring: from
  an opening brace to the brace that closes it, counting the braces nested in between,
  taking the earliest opening brace that is closed at all. \<open>closes_at d\<close> reads up to the
  closing brace at nesting depth \<open>d\<close>.
\<close>

fun closes_at :: "nat \<Rightarrow> string \<Rightarrow> string option" where
  "closes_at d [] = None"
| "closes_at d (c # cs) =
     (if c = CHR ''{'' then map_option ((#) c) (closes_at (Suc d) cs)
      else if c = CHR ''}'' then
        (case d of 0 \<Rightarrow> Some [c] | Suc d' \<Rightarrow> map_option ((#) c) (closes_at d' cs))
      else map_option ((#) c) (closes_at d cs))"

fun first_balanced :: "string \<Rightarrow> string option" where
  "first_balanced [] = None"
| "first_balanced (c # cs) =
     (if c = CHR ''{'' then
        (case closes_at 0 cs of Some m \<Rightarrow> Some (c # m) | None \<Rightarrow> first_balanced cs)
      else first_balanced cs)"

definition plan_as_claimed :: "runtime \<Rightarrow> string \<Rightarrow> error + json" where
  "plan_as_claimed R t =
     (case JSON_parse R t of
        Inr plan \<Rightarrow> Inr plan
      | Inl _ \<Rightarrow>
          (case first_balanced t of
             None \<Rightarrow> Inl (Error ''Router did not return JSON'')
           | Some m \<Rightarrow> JSON_parse R m))"


section \<open>The cells of the search table\<close>

text \<open>
  The columns of a row in the words of the specification: name, address, the two
  classification fields and the identifier, each read under its alternative names in
  order, a missing (absent or \<open>null\<close>) field shown as an em dash and a present one as its
  string with the pipes escaped. A row cannot be rendered for an item that is \<open>null\<close>,
  nor when one of its shown values has no string. \<open>pipes_escaped\<close> says that every pipe
  of a string comes right after a backslash.
\<close>

definition field_of :: "json \<Rightarrow> string list \<Rightarrow> json option" where
  "field_of p ks = (case List.find (\<lambda>v. \<not> nullish v) (map (lookup p) ks) of Some v \<Rightarrow> v | None \<Rightarrow> None)"

definition cell :: "runtime \<Rightarrow> json option \<Rightarrow> error + string" where
  "cell R f = (case f of None \<Rightarrow> Inr em_dash | Some v \<Rightarrow> map_sum id escape_pipes (js_String R v))"

definition columns :: "string list list" where
  "columns = [[''projectName'', ''name''], [''address''], [''zoningCode'', ''zoning_code''],
              [''zoneType'', ''zone_type''], [''id'', ''projectId'']]"

definition row_of_cells :: "string list \<Rightarrow> string" where
  "row_of_cells cs = ''| '' @ join '' | '' (butlast cs) @ '' | `'' @ last cs @ ''` |''"

definition row_text :: "runtime \<Rightarrow> json \<Rightarrow> error + string" where
  "row_text R p =
     (if p = JNull then Inl (TypeError ''Cannot read properties of null (reading 'projectName')'')
      else map_sum id row_of_cells (collect (map (\<lambda>ks. cell R (field_of p ks)) columns)))"

fun pipes_escaped :: "bool \<Rightarrow> string \<Rightarrow> bool" where
  "pipes_escaped after_backslash [] = True"
| "pipes_escaped after_backslash (c # cs) =
     ((c = CHR ''|'' \<longrightarrow> after_backslash) \<and> pipes_escaped (c = CHR 0x5C) cs)"

section \<open>A runtime for concrete inputs\<close>

text \<open>
  Evaluating the model on a concrete input needs the runtime's functions there. This one
  prints a whole number in decimal, reads a string of decimal digits as that number
  and any other string as \<open>NaN\<close>, and parses exactly one given JSON text; it is used only
  where JavaScript does the same.
\<close>

fun dec :: "nat \<Rightarrow> string" where
  "dec n = (if n < 10 then [char_of (48 + n)] else dec (n div 10) @ [char_of (48 + n mod 10)])"

declare dec.simps [simp del]

definition digit_val :: "char \<Rightarrow> nat option" where
  "digit_val c = (if (48::nat) \<le> of_char c \<and> of_char c \<le> (57::nat) then Some (of_char c - 48) else None)"

fun read_dec :: "nat \<Rightarrow> string \<Rightarrow> nat option" where
  "read_dec acc [] = Some acc"
| "read_dec acc (c # cs) =
     (case digit_val c of None \<Rightarrow> None | Some d \<Rightarrow> read_dec (10 * acc + d) cs)"

definition parses_only :: "string \<Rightarrow> json \<Rightarrow> string \<Rightarrow> error + json" where
  "parses_only doc v s = (if s = doc then Inr v else Inl (SyntaxError ''Unexpected token''))"

definition test_runtime :: "string \<Rightarrow> json \<Rightarrow> runtime" where
  "test_runtime doc v =
     \<lparr>numToString = (\<lambda>r. (if r < 0 then ''-'' else []) @ dec (nat \<lfloor>\<bar>r\<bar>\<rfloor>)),
      stringToNumber = (\<lambda>s. case s of [] \<Rightarrow> Fin 0
                              | _ \<Rightarrow> (case read_dec 0 s of Some n \<Rightarrow> Fin (of_nat n) | None \<Rightarrow> NaN)),
      JSON_parse = parses_only doc v\<rparr>"

text \<open>
  A system for concrete inputs: the outside state counts the network calls made so far,
  the backend and the completion endpoint answer from that count and the request, and
  the random index is always the first.
\<close>

definition test_sys :: "string \<Rightarrow> (nat \<Rightarrow> request \<Rightarrow> error + json) \<Rightarrow> (nat \<Rightarrow> json list \<Rightarrow> error + json) \<Rightarrow> nat sys" where
  "test_sys key backend llm =
     \<lparr>rt = test_runtime [] JNull, OPENAI_API_KEY = key,
      http = (\<lambda>n req. (backend n req, Suc n)),
      openai = (\<lambda>n ms k. (llm n ms, Suc n)),
      random = (\<lambda>n m. 0)\<rparr>"

definition test_world :: "json \<Rightarrow> json list \<Rightarrow> nat world" where
  "test_world p xs = \<lparr>memory = \<lparr>lastProject = p, lastSearchItems = xs\<rparr>, ext = 0, calls = []\<rparr>"

text \<open>
  A backend whose projects carry their identifier under \<open>projectId\<close> only: the list
  endpoint returns one such project, the item endpoint returns it too.
\<close>

definition projectId_backend :: "nat \<Rightarrow> request \<Rightarrow> error + json" where
  "projectId_backend n r = (case r of
       Request GET (Projects _) _ \<Rightarrow> Inr (JArr [JObj [(''projectId'', JStr ''9''), (''projectName'', JStr ''Oak'')]])
     | Request GET (Project _) _ \<Rightarrow> Inr (JObj [(''projectId'', JStr ''9''), (''projectName'', JStr ''Oak'')])
     | _ \<Rightarrow> Inr (JStr []))"


text \<open>
  A backend whose project has a display name that cannot be converted to a string: an
  object with a \<open>toString\<close> property of its own.
\<close>

definition unnameable_backend :: "nat \<Rightarrow> request \<Rightarrow> error + json" where
  "unnameable_backend n r = (case r of
       Request GET _ _ \<Rightarrow>
         Inr (JObj [(''id'', JStr ''5''), (''projectName'', JObj [(''toString'', JNum (Fin 0))])])
     | _ \<Rightarrow> Inr (JStr []))"

text \<open>
  A backend whose entity carries notes, and a provider that answers every completion with the
  text \<open>short\<close>.
\<close>

definition noted_backend :: "nat \<Rightarrow> request \<Rightarrow> error + json" where
  "noted_backend n r = Inr (JObj [(''id'', JStr ''1''), (''notes'', JStr ''long text'')])"

definition short_llm :: "nat \<Rightarrow> json list \<Rightarrow> error + json" where
  "short_llm n ms = Inr (JObj [(''choices'', JArr [JObj [(''message'', JObj [(''content'', JStr ''short'')])]])])"

section \<open>Properties of the list payload normalizer\<close>

lemma first_candidate_obj:
  "first_candidate ((k, Some (JObj obj)) # cs) =
     (case arr_at obj k of Some xs \<Rightarrow> Some (obj, xs) | None \<Rightarrow> first_candidate cs)"
  by (simp add: arr_at_def split: option.splits json.splits)

lemma first_candidate_skip:
  "(\<forall>obj. v \<noteq> Some (JObj obj)) \<Longrightarrow> first_candidate ((k, v) # cs) = first_candidate cs"
  by (simp split: option.splits json.splits)

lemma coalesce_chain_find:
  "(case coalesce (coalesce (coalesce a b) c) (Some d) of Some v \<Rightarrow> v | None \<Rightarrow> d) =
   (case List.find (\<lambda>v. \<not> nullish v) [a, b, c] of Some (Some v) \<Rightarrow> v | _ \<Rightarrow> d)"
proof (cases "nullish a")
  case na: True
  show ?thesis
  proof (cases "nullish b")
    case nb: True
    show ?thesis
    proof (cases "nullish c")
      case True
      with na nb show ?thesis by (simp add: coalesce_def)
    next
      case False
      with na nb show ?thesis by (cases c) (auto simp add: coalesce_def nullish_def)
    qed
  next
    case False
    with na show ?thesis by (cases b) (auto simp add: coalesce_def nullish_def)
  qed
next
  case False
  then show ?thesis by (cases a) (simp_all add: coalesce_def nullish_def)
qed

lemma coalesce_chain_some:
  "\<exists>v. coalesce (coalesce (coalesce a b) c) (Some d) = Some v"
  by (auto simp add: coalesce_def nullish_def)

lemma total_of_given:
  "total_of R obj xs =
     (case js_Number R (given_total obj xs) of
        Inl e \<Rightarrow> Inl e
      | Inr t \<Rightarrow> Inr (if isFinite t then t else len xs))"
proof -
  obtain v where v: "coalesce (coalesce (coalesce (map_of obj ''total'') (map_of obj ''count''))
                (map_of obj ''totalCount'')) (Some (JNum (len xs))) = Some v"
    using coalesce_chain_some by blast
  have "given_total obj xs = v"
    using coalesce_chain_find [where a = "map_of obj ''total''" and b = "map_of obj ''count''"
            and c = "map_of obj ''totalCount''" and d = "JNum (len xs)"] v
    by (simp add: given_total_def)
  then show ?thesis by (simp add: total_of_def v js_Number_opt_def)
qed

lemma first_candidate_map:
  "first_candidate (map (\<lambda>(obj, k). (k, Some (JObj obj))) ps) =
     (case List.find (\<lambda>(obj, k). arr_at obj k \<noteq> None) ps of
        Some (obj, k) \<Rightarrow> (case arr_at obj k of Some xs \<Rightarrow> Some (obj, xs) | None \<Rightarrow> None)
      | None \<Rightarrow> None)"
proof (induction ps)
  case Nil
  show ?case by simp
next
  case (Cons p ps)
  obtain obj k where p: "p = (obj, k)" by (cases p)
  show ?case
  proof (cases "arr_at obj k")
    case None
    with Cons p show ?thesis by (simp add: first_candidate_obj del: first_candidate.simps)
  next
    case (Some xs)
    with p show ?thesis by (simp add: first_candidate_obj del: first_candidate.simps)
  qed
qed

lemma first_candidate_last_skip:
  "(\<forall>obj. v \<noteq> Some (JObj obj)) \<Longrightarrow> first_candidate (cs @ [(k, v)]) = first_candidate cs"
proof (induction cs)
  case Nil
  then show ?case by (simp add: first_candidate_skip del: first_candidate.simps(2))
next
  case (Cons c cs)
  obtain k' v' where c: "c = (k', v')" by (cases c)
  show ?case
  proof (cases "\<exists>obj. v' = Some (JObj obj)")
    case True
    then obtain obj where "v' = Some (JObj obj)" by blast
    with Cons c show ?thesis
      by (simp add: first_candidate_obj del: first_candidate.simps split: option.splits)
  next
    case False
    with Cons c show ?thesis by (simp add: first_candidate_skip del: first_candidate.simps(2))
  qed
qed

lemma first_candidate_probes:
  "first_candidate (candidates (JObj whole)) = probe_match whole"
proof (cases "\<exists>d. map_of whole ''data'' = Some (JObj d)")
  case True
  then obtain d where d: "map_of whole ''data'' = Some (JObj d)" by blast
  have "candidates (JObj whole) = map (\<lambda>(obj, k). (k, Some (JObj obj))) (spec_probes whole)"
    by (simp add: candidates_def spec_probes_def lookup_def d)
  then show ?thesis by (simp only: first_candidate_map probe_match_def)
next
  case False
  then have nobj: "\<forall>obj. lookup (JObj whole) ''data'' \<noteq> Some (JObj obj)" by (simp add: lookup_def)
  have probes: "spec_probes whole = map (\<lambda>k. (whole, k)) [''items'', ''data'', ''results'', ''rows'', ''projects'']"
    using False by (simp add: spec_probes_def split: option.splits json.splits)
  have "candidates (JObj whole) =
          map (\<lambda>(obj, k). (k, Some (JObj obj))) (spec_probes whole) @ [(''items'', lookup (JObj whole) ''data'')]"
    by (simp add: candidates_def probes)
  then show ?thesis by (simp only: first_candidate_last_skip [OF nobj] first_candidate_map probe_match_def)
qed

text \<open>
  Claim C2 says that the normalizer satisfies its description exactly, failing only on
  a value that is not an object and falling back to the length whenever the coercion
  of the total gives no finite number. The coercion itself can throw: an object with a
  \<open>toString\<close> property of its own has no primitive value. With such an object as \<open>total\<close>
  the normalizer throws a \<open>TypeError\<close> where the claim promises the items with the length
  as total.
\<close>

theorem C2_unconvertible_total_counterexample:
  "normalizeListPayload (test_runtime [] JNull)
     (JObj [(''items'', JArr [JNum (Fin 1)]), (''total'', JObj [(''toString'', JNum (Fin 0))])])
     = Inl (TypeError ''Cannot convert object to primitive value'')
   \<and> normalize_as_claimed (test_runtime [] JNull)
     (JObj [(''items'', JArr [JNum (Fin 1)]), (''total'', JObj [(''toString'', JNum (Fin 0))])])
     = Inr \<lparr>items = [JNum (Fin 1)], total = Fin 1\<rparr>"
  by (simp add: normalizeListPayload_def candidates_def total_of_def coalesce_def nullish_def
        js_Number_opt_def js_Number_def cannot_convert_def normalize_as_claimed_def probe_match_def
        spec_probes_def arr_at_def given_total_def len_def)

text \<open>
  Claim C2, amended. \<open>normalizeListPayload\<close> does exactly what the claim describes (array
  wrapped with its length; a non-object, \<open>null\<close> included, fails with the invalid-payload
  error; the probes \<open>items\<close>, \<open>data\<close>, \<open>results\<close>, \<open>rows\<close>, \<open>projects\<close>, then \<open>items\<close> under
  \<open>data\<close>, first array wins; total from \<open>total\<close>, else \<open>count\<close>, else \<open>totalCount\<close>, else the
  length, coerced, the length replacing a non-finite number; no match gives the value as
  single item with total 1), except that when a probe matches and the value taken for
  the total cannot be converted to a number, the call fails with the conversion's
  \<open>TypeError\<close>.
\<close>

theorem C2_normalizeListPayload_as_claimed_or_TypeError:
  "normalizeListPayload R v =
     (case v of
        JObj whole \<Rightarrow>
          (case probe_match whole of
             Some (obj, xs) \<Rightarrow>
               (case js_Number R (given_total obj xs) of
                  Inl e \<Rightarrow> Inl e
                | Inr n \<Rightarrow> normalize_as_claimed R v)
           | None \<Rightarrow> normalize_as_claimed R v)
      | _ \<Rightarrow> normalize_as_claimed R v)"
proof (cases v)
  case (JObj whole)
  show ?thesis
    unfolding JObj normalizeListPayload_def normalize_as_claimed_def json.case
      first_candidate_probes total_of_given
    by (simp split: option.splits prod.splits sum.splits)
qed (simp_all add: normalizeListPayload_def normalize_as_claimed_def)

text \<open>
  The theorem at an object whose array sits under \<open>data.items\<close> and whose total comes from
  the inner object's \<open>count\<close>, given as a string; at a total that cannot be converted; at
  an object without an array; and at \<open>null\<close>.
\<close>

theorem C2_witness:
  "normalizeListPayload (test_runtime [] JNull)
     (JObj [(''data'', JObj [(''items'', JArr [JStr ''a'', JStr ''b'']), (''total'', JNull), (''count'', JStr ''40'')])])
   = Inr \<lparr>items = [JStr ''a'', JStr ''b''], total = Fin 40\<rparr>
   \<and> normalizeListPayload (test_runtime [] JNull)
     (JObj [(''rows'', JArr []), (''count'', JArr [JObj [(''toString'', JNull)]])])
   = Inl (TypeError ''Cannot convert object to primitive value'')
   \<and> normalizeListPayload (test_runtime [] JNull) (JObj [(''id'', JStr ''1'')])
   = Inr \<lparr>items = [JObj [(''id'', JStr ''1'')]], total = Fin 1\<rparr>
   \<and> normalizeListPayload (test_runtime [] JNull) JNull
   = Inl (Error ''Invalid list payload: expected array or object'')"
  using C2_normalizeListPayload_as_claimed_or_TypeError
          [of "test_runtime [] JNull"
              "JObj [(''data'', JObj [(''items'', JArr [JStr ''a'', JStr ''b'']), (''total'', JNull), (''count'', JStr ''40'')])]"]
        C2_normalizeListPayload_as_claimed_or_TypeError
          [of "test_runtime [] JNull"
              "JObj [(''rows'', JArr []), (''count'', JArr [JObj [(''toString'', JNull)]])]"]
        C2_normalizeListPayload_as_claimed_or_TypeError
          [of "test_runtime [] JNull" "JObj [(''id'', JStr ''1'')]"]
        C2_normalizeListPayload_as_claimed_or_TypeError [of "test_runtime [] JNull" JNull]
  by (simp add: normalize_as_claimed_def probe_match_def spec_probes_def arr_at_def given_total_def
        nullish_def js_Number_def cannot_convert_def test_runtime_def digit_val_def isFinite_def len_def)


section \<open>Unfolding the model on concrete inputs\<close>

lemmas tool_defs =
  runTool_def ai_summarize_def projects_create_def projects_get_def projects_update_def
  projects_delete_def projects_deleteRandom_def projects_search_def
  get_resolve_id_def delete_resolve_id_def summarize_notes_def searchFirstByName_def
  fetchSomeProjects_def do_http_def callOpenAI_def

lemmas value_defs =
  hasNonEmptyString_def requireString_def lookup_def trim_def ws_seqs_def truthy_opt_def
  no_id_def first_item_id_def first_item_name_def js_String_opt_def coalesce_def nullish_def
  or_null_def or_else_def opt_field_def set_prop_def text_block_def json_block_def msg_def
  batchLimit_def Number_isFinite_def isFinite_def Math_max1_def js_Number_opt_def js_Number_def
  num_String_def payload_json_def search_params_def caught_string_def message_def
  cannot_convert_def

lemmas test_defs = test_sys_def test_world_def test_runtime_def parses_only_def digit_val_def

section \<open>Conversions that throw\<close>

lemma collect_Inl: "collect rs = Inl e \<Longrightarrow> Inl e \<in> set rs"
  by (induction rs rule: collect.induct) (auto split: sum.splits)

lemma js_String_error: "js_String R v = Inl e \<Longrightarrow> e = cannot_convert"
proof (induction R v arbitrary: e rule: js_String.induct)
  case (5 R xs)
  from "5.prems" have "collect (map (\<lambda>x. if x = JNull then Inr [] else js_String R x) xs) = Inl e"
    by (simp split: sum.splits)
  then have "Inl e \<in> set (map (\<lambda>x. if x = JNull then Inr [] else js_String R x) xs)"
    by (rule collect_Inl)
  then obtain x where x: "x \<in> set xs" and "(if x = JNull then Inr [] else js_String R x) = Inl e"
    by auto
  then have "x \<noteq> JNull" and "js_String R x = Inl e" by (auto split: if_splits)
  with "5.IH" x show ?case by blast
qed (auto split: if_splits)

lemma js_String_opt_error: "js_String_opt R v = Inl e \<Longrightarrow> e = cannot_convert"
  by (cases v) (auto simp add: js_String_opt_def dest: js_String_error)

section \<open>Memory is written after the last backend call\<close>

text \<open>
  Network calls and the resolution of an identifier change the outside state and the
  call log only; each handler assigns to memory after its last backend call.
\<close>

lemma do_http_memory: "do_http S req w = (res, w') \<Longrightarrow> memory w' = memory w"
  by (auto simp add: do_http_def split: prod.splits)

lemma callOpenAI_memory: "callOpenAI S ms n w = (res, w') \<Longrightarrow> memory w' = memory w"
  by (auto simp add: callOpenAI_def Let_def split: prod.splits sum.splits if_splits)

lemma searchFirstByName_memory: "searchFirstByName S n w = (res, w') \<Longrightarrow> memory w' = memory w"
  by (auto simp add: searchFirstByName_def split: prod.splits sum.splits dest: do_http_memory)

lemma fetchSomeProjects_memory: "fetchSomeProjects S n w = (res, w') \<Longrightarrow> memory w' = memory w"
  by (auto simp add: fetchSomeProjects_def split: prod.splits sum.splits dest: do_http_memory)

lemma get_resolve_id_memory: "get_resolve_id S args w = (res, w') \<Longrightarrow> memory w' = memory w"
  by (auto simp add: get_resolve_id_def split: prod.splits sum.splits if_splits option.splits
        dest: searchFirstByName_memory)

lemma delete_resolve_id_memory: "delete_resolve_id S args w = (res, w') \<Longrightarrow> memory w' = memory w"
  by (auto simp add: delete_resolve_id_def split: prod.splits sum.splits if_splits option.splits
        dest: searchFirstByName_memory)


lemma ai_summarize_memory: "ai_summarize S args w = (res, w') \<Longrightarrow> memory w' = memory w"
  by (auto simp add: ai_summarize_def split: prod.splits sum.splits if_splits
        dest: callOpenAI_memory)


lemma projects_create_fails: "projects_create S args w = (Inl e, w') \<Longrightarrow> memory w' = memory w"
  by (auto simp add: projects_create_def Let_def split: prod.splits sum.splits dest: do_http_memory)

lemma projects_get_fails: "projects_get S args w = (Inl e, w') \<Longrightarrow> memory w' = memory w"
  by (auto simp add: projects_get_def split: prod.splits sum.splits dest: get_resolve_id_memory)
     (metis do_http_memory get_resolve_id_memory)

lemma projects_update_fails: "projects_update S args w = (Inl e, w') \<Longrightarrow> memory w' = memory w"
  by (auto simp add: projects_update_def Let_def split: prod.splits sum.splits dest: do_http_memory)

lemma projects_search_fails: "projects_search S args w = (Inl e, w') \<Longrightarrow> memory w' = memory w"
  by (auto simp add: projects_search_def split: prod.splits sum.splits dest: do_http_memory)

lemma do_http_result:
  "do_http S req w = (res, w') \<Longrightarrow>
     http S (ext w) req = (res, ext w') \<and> calls w' = calls w @ [Http req] \<and> memory w' = memory w"
  by (auto simp add: do_http_def split: prod.splits)

lemma projects_delete_fails:
  assumes "projects_delete S args w = (Inl e, w')"
  shows "memory w' = memory w
       \<or> (e = cannot_convert \<and> memory w' = (memory w)\<lparr>lastProject := JNull\<rparr>
          \<and> (\<exists>b i r cs. http S b (Request DELETE (Project i) None) = (Inr r, ext w')
                \<and> calls w' = cs @ [Http (Request DELETE (Project i) None)]))"
proof (cases "delete_resolve_id S args w")
  case (Pair r w1)
  note m1 = delete_resolve_id_memory [OF Pair]
  show ?thesis
  proof (cases r)
    case (Inl e1)
    with assms Pair m1 show ?thesis by (simp add: projects_delete_def)
  next
    case (Inr ident)
    obtain i nameUsed where ident: "ident = (i, nameUsed)" by (cases ident)
    obtain r2 w2 where h: "do_http S (Request DELETE (Project i) None) w1 = (r2, w2)"
      by (cases "do_http S (Request DELETE (Project i) None) w1")
    note h2 = do_http_result [OF h]
    show ?thesis
    proof (cases r2)
      case (Inl e2)
      with assms Pair Inr ident h h2 m1 show ?thesis by (simp add: projects_delete_def)
    next
      case ok: (Inr body)
      let ?w3 = "w2\<lparr>memory := (memory w2)\<lparr>lastProject := JNull\<rparr>\<rparr>"
      from assms Pair Inr ident h ok
      have t: "truthy nameUsed" and s: "js_String (rt S) nameUsed = Inl e" and w': "w' = ?w3"
        by (auto simp add: projects_delete_def Let_def split: if_splits sum.splits)
      have e: "e = cannot_convert" using s by (rule js_String_error)
      have "http S (ext w1) (Request DELETE (Project i) None) = (Inr body, ext w')"
        using h2 ok w' by simp
      moreover have "calls w' = calls w1 @ [Http (Request DELETE (Project i) None)]"
        using h2 w' by simp
      moreover have "memory w' = (memory w)\<lparr>lastProject := JNull\<rparr>"
        using h2 m1 w' by simp
      ultimately show ?thesis using e by blast
    qed
  qed
qed

lemma projects_deleteRandom_fails:
  assumes "projects_deleteRandom S args w = (Inl e, w')"
  shows "memory w' = memory w
       \<or> (e = cannot_convert \<and> memory w' = (memory w)\<lparr>lastProject := JNull\<rparr>
          \<and> (\<exists>b i r cs. http S b (Request DELETE (Project i) None) = (Inr r, ext w')
                \<and> calls w' = cs @ [Http (Request DELETE (Project i) None)]))"
proof (cases "batchLimit (rt S) args")
  case (Inl e0)
  with assms show ?thesis by (simp add: projects_deleteRandom_def)
next
  case (Inr limit)
  obtain r1 w1 where f: "fetchSomeProjects S limit w = (r1, w1)" by (cases "fetchSomeProjects S limit w")
  note m1 = fetchSomeProjects_memory [OF f]
  show ?thesis
  proof (cases r1)
    case (Inl e1)
    with assms Inr f m1 show ?thesis by (simp add: projects_deleteRandom_def)
  next
    case xs: (Inr xs)
    let ?n = "random S (ext w1) (length xs)"
    let ?pick = "xs ! ?n"
    let ?idv = "js_String_opt (rt S) (coalesce (lookup ?pick ''id'') (lookup ?pick ''projectId''))"
    let ?name = "coalesce (coalesce (lookup ?pick ''projectName'') (lookup ?pick ''name'')) (Some (JStr ''(unnamed)''))"
    show ?thesis
    proof (cases "xs = [] \<or> \<not> ?n < length xs \<or> ?pick = JNull \<or> (\<exists>e1. ?idv = Inl e1)")
      case True
      with assms Inr f xs m1 show ?thesis
        by (auto simp add: projects_deleteRandom_def Let_def split: if_splits sum.splits)
    next
      case False
      then obtain i where i: "?idv = Inr i" by (cases ?idv) auto
      obtain r2 w2 where h: "do_http S (Request DELETE (Project i) None) w1 = (r2, w2)"
        by (cases "do_http S (Request DELETE (Project i) None) w1")
      note h2 = do_http_result [OF h]
      show ?thesis
      proof (cases r2)
        case (Inl e2)
        with assms Inr f xs False i h h2 m1 show ?thesis
          by (simp add: projects_deleteRandom_def Let_def)
      next
        case ok: (Inr body)
        let ?w3 = "w2\<lparr>memory := (memory w2)\<lparr>lastProject := JNull\<rparr>\<rparr>"
        from assms Inr f xs False i h ok
        have s: "js_String_opt (rt S) ?name = Inl e" and w': "w' = ?w3"
          by (auto simp add: projects_deleteRandom_def Let_def split: if_splits sum.splits)
        have e: "e = cannot_convert" using s by (rule js_String_opt_error)
        have "http S (ext w1) (Request DELETE (Project i) None) = (Inr body, ext w')"
          using h2 ok w' by simp
        moreover have "calls w' = calls w1 @ [Http (Request DELETE (Project i) None)]"
          using h2 w' by simp
        moreover have "memory w' = (memory w)\<lparr>lastProject := JNull\<rparr>"
          using h2 m1 w' by simp
        ultimately show ?thesis using e by blast
      qed
    qed
  qed
qed

text \<open>
  Claim C10 says that a failed invocation leaves memory exactly as it was. Delete and
  deleteRandom build their confirmation text after the backend call and after clearing
  \<open>lastProject\<close>, and the template converts the display name to a string. A get
  remembers a project whose \<open>projectName\<close> is an object with a \<open>toString\<close> property; the
  delete without arguments that follows deletes it at the backend, clears
  \<open>lastProject\<close>, and fails with a \<open>TypeError\<close>.
\<close>

theorem C10_memory_cleared_counterexample:
  "(case runTool (test_sys [] unnameable_backend (\<lambda>n ms. Inr JNull)) ''projects.get''
           (JObj [(''id'', JStr ''5'')]) (test_world JNull []) of
      (r1, w1) \<Rightarrow>
        lastProject (memory w1)
          = JObj [(''id'', JStr ''5''), (''projectName'', JObj [(''toString'', JNum (Fin 0))])]
        \<and> (case runTool (test_sys [] unnameable_backend (\<lambda>n ms. Inr JNull)) ''projects.delete''
                   (JObj []) w1 of
              (r2, w2) \<Rightarrow>
                r2 = Inl (TypeError ''Cannot convert object to primitive value'')
                \<and> lastProject (memory w2) = JNull
                \<and> calls w2 = [Http (Request GET (Project ''5'') None),
                              Http (Request DELETE (Project ''5'') None)]))"
  by (simp add: tool_defs value_defs test_defs unnameable_backend_def)

text \<open>
  Claim C10, amended. A tool invocation that fails with an error leaves Context Memory
  exactly as it was, with one exception: a delete or deleteRandom whose backend delete
  succeeded and which then fails with the \<open>TypeError\<close> of converting the display name to
  a string has cleared \<open>lastProject\<close>, and changed nothing else in memory.
\<close>

theorem C10_failed_invocation_memory:
  assumes "runTool S name args w = (Inl e, w')"
  shows "memory w' = memory w
       \<or> ((name = ''projects.delete'' \<or> name = ''projects.deleteRandom'')
          \<and> e = TypeError ''Cannot convert object to primitive value''
          \<and> memory w' = (memory w)\<lparr>lastProject := JNull\<rparr>
          \<and> (\<exists>b i r cs. http S b (Request DELETE (Project i) None) = (Inr r, ext w')
                \<and> calls w' = cs @ [Http (Request DELETE (Project i) None)]))"
proof -
  consider (del) "name = ''projects.delete''" | (rnd) "name = ''projects.deleteRandom''"
    | (other) "name \<noteq> ''projects.delete''" "name \<noteq> ''projects.deleteRandom''" by blast
  then show ?thesis
  proof cases
    case del
    with assms have "projects_delete S args w = (Inl e, w')" by (simp add: runTool_def)
    from projects_delete_fails [OF this] del show ?thesis by (simp add: cannot_convert_def)
  next
    case rnd
    with assms have "projects_deleteRandom S args w = (Inl e, w')" by (simp add: runTool_def)
    from projects_deleteRandom_fails [OF this] rnd show ?thesis by (simp add: cannot_convert_def)
  next
    case other
    with assms have "memory w' = memory w"
      unfolding runTool_def
      by (auto split: if_splits
            dest: ai_summarize_memory projects_create_fails projects_get_fails projects_update_fails
                  projects_search_fails)
    then show ?thesis by simp
  qed
qed


text \<open>
  The theorem at a delete that resolves its identifier from memory and whose backend call
  is refused: the remembered project is still there afterwards.
\<close>

theorem C10_witness:
  "fst (runTool (test_sys [] (\<lambda>n r. Inl (Error ''HTTP 500 Internal Server Error: '')) (\<lambda>n ms. Inr JNull))
          ''projects.delete'' (JObj []) (test_world (JObj [(''id'', JStr ''7'')]) []))
     = Inl (Error ''HTTP 500 Internal Server Error: '')
   \<and> memory (snd (runTool (test_sys [] (\<lambda>n r. Inl (Error ''HTTP 500 Internal Server Error: '')) (\<lambda>n ms. Inr JNull))
          ''projects.delete'' (JObj []) (test_world (JObj [(''id'', JStr ''7'')]) [])))
     = \<lparr>lastProject = JObj [(''id'', JStr ''7'')], lastSearchItems = []\<rparr>"
proof -
  let ?S = "test_sys [] (\<lambda>n r. Inl (Error ''HTTP 500 Internal Server Error: '')) (\<lambda>n ms. Inr JNull)"
  let ?w = "test_world (JObj [(''id'', JStr ''7'')]) []"
  have run: "runTool ?S ''projects.delete'' (JObj []) ?w
      = (Inl (Error ''HTTP 500 Internal Server Error: ''),
         ?w\<lparr>ext := 1, calls := [Http (Request DELETE (Project ''7'') None)]\<rparr>)"
    by (simp add: tool_defs value_defs test_defs)
  have "memory (?w\<lparr>ext := 1, calls := [Http (Request DELETE (Project ''7'') None)]\<rparr>) = memory ?w"
    using C10_failed_invocation_memory [OF run] by blast
  with run show ?thesis by (simp add: test_world_def)
qed



section \<open>What a successful invocation remembers\<close>

lemma run_get: "runTool S ''projects.get'' args w = projects_get S args w"
  by (simp add: runTool_def)
lemma run_deleteRandom: "runTool S ''projects.deleteRandom'' args w = projects_deleteRandom S args w"
  by (simp add: runTool_def)



lemma notes_object: "truthy_opt (lookup v ''notes'') \<Longrightarrow> \<exists>kvs. v = JObj kvs"
  by (cases v) (simp_all add: lookup_def truthy_opt_def)










section \<open>Who writes the remembered search items\<close>










section \<open>The notes summary inside get\<close>

lemma truthy_object: "truthy (JObj kvs)"
  by simp

lemma projects_get_after_fetch:
  assumes "get_resolve_id S args w = (Inr i, w1)"
    and "http S (ext w1) (Request GET (Project i) None) = (Inr fetched, b)"
    and "summarize_notes S fetched (w1\<lparr>ext := b, calls := calls w1 @ [Http (Request GET (Project i) None)]\<rparr>)
           = (project, w3)"
  shows "runTool S ''projects.get'' args w =
           (Inr [JObj [(''type'', JStr ''json''), (''json'', project)]],
            w3\<lparr>memory := (memory w3)\<lparr>lastProject := (if truthy project then project else JNull)\<rparr>\<rparr>)"
  using assms by (simp add: run_get projects_get_def do_http_def json_block_def or_null_def)

text \<open>
  Claim C6. Once get has resolved its identifier and fetched the entity: with an LLM
  credential configured and truthy notes on the entity, the entity is an object and a
  summary is attempted. The attempt converts the notes to a string and then makes one
  completion call, with the summarizer's system message, the notes as the user message
  and a limit of 120 tokens. When the conversion throws, no completion call is made and
  the text of the error is stored on the entity under \<open>notes_summary_error\<close>; when the
  completion call fails, the text of its error is stored there; when it succeeds, the reply
  is stored under \<open>notes_summary\<close>. In all three cases get succeeds with that entity and
  \<open>lastProject\<close> is set to it. Without a credential or without truthy notes, get returns the
  fetched entity and the fetch is the last call made: there is no completion call.
\<close>

theorem C6_notes_summary_is_best_effort:
  assumes "get_resolve_id S args w = (Inr i, w1)"
    and "http S (ext w1) (Request GET (Project i) None) = (Inr fetched, b)"
  shows
   "(OPENAI_API_KEY S \<noteq> [] \<and> truthy_opt (lookup fetched ''notes'') \<longrightarrow>
      (\<exists>kvs. fetched = JObj kvs
        \<and> (\<forall>e. js_String_opt (rt S) (lookup fetched ''notes'') = Inl e \<longrightarrow>
              runTool S ''projects.get'' args w =
                (Inr [JObj [(''type'', JStr ''json''),
                            (''json'', JObj (AList.update ''notes_summary_error''
                                (JStr ''Cannot convert object to primitive value'') kvs))]],
                 \<lparr>memory = (memory w)\<lparr>lastProject := JObj (AList.update ''notes_summary_error''
                                (JStr ''Cannot convert object to primitive value'') kvs)\<rparr>,
                  ext = b,
                  calls = calls w1 @ [Http (Request GET (Project i) None)]\<rparr>))
        \<and> (\<forall>t e b'. js_String_opt (rt S) (lookup fetched ''notes'') = Inr t \<longrightarrow>
              openai S b
                [JObj [(''role'', JStr ''system''),
                       (''content'', JStr (''You are a concise summarizer. Summarize the project notes into 1''
                                           @ [CHR 0xE2, CHR 0x80, CHR 0x93] @ ''2 sentences.''))],
                 JObj [(''role'', JStr ''user''), (''content'', JStr t)]] 120 = (Inl e, b') \<longrightarrow>
              runTool S ''projects.get'' args w =
                (Inr [JObj [(''type'', JStr ''json''),
                            (''json'', JObj (AList.update ''notes_summary_error'' (JStr (caught_string e)) kvs))]],
                 \<lparr>memory = (memory w)\<lparr>lastProject :=
                              JObj (AList.update ''notes_summary_error'' (JStr (caught_string e)) kvs)\<rparr>,
                  ext = b',
                  calls = calls w1 @ [Http (Request GET (Project i) None),
                    OpenAI [JObj [(''role'', JStr ''system''),
                                  (''content'', JStr (''You are a concise summarizer. Summarize the project notes into 1''
                                                      @ [CHR 0xE2, CHR 0x80, CHR 0x93] @ ''2 sentences.''))],
                            JObj [(''role'', JStr ''user''), (''content'', JStr t)]] 120]\<rparr>))
        \<and> (\<forall>t j b'. js_String_opt (rt S) (lookup fetched ''notes'') = Inr t \<longrightarrow>
              openai S b
                [JObj [(''role'', JStr ''system''),
                       (''content'', JStr (''You are a concise summarizer. Summarize the project notes into 1''
                                           @ [CHR 0xE2, CHR 0x80, CHR 0x93] @ ''2 sentences.''))],
                 JObj [(''role'', JStr ''user''), (''content'', JStr t)]] 120 = (Inr j, b') \<longrightarrow>
              runTool S ''projects.get'' args w =
                (Inr [JObj [(''type'', JStr ''json''),
                            (''json'', JObj (AList.update ''notes_summary'' (reply j) kvs))]],
                 \<lparr>memory = (memory w)\<lparr>lastProject := JObj (AList.update ''notes_summary'' (reply j) kvs)\<rparr>,
                  ext = b',
                  calls = calls w1 @ [Http (Request GET (Project i) None),
                    OpenAI [JObj [(''role'', JStr ''system''),
                                  (''content'', JStr (''You are a concise summarizer. Summarize the project notes into 1''
                                                      @ [CHR 0xE2, CHR 0x80, CHR 0x93] @ ''2 sentences.''))],
                            JObj [(''role'', JStr ''user''), (''content'', JStr t)]] 120]\<rparr>))))
    \<and> (OPENAI_API_KEY S = [] \<or> \<not> truthy_opt (lookup fetched ''notes'') \<longrightarrow>
        runTool S ''projects.get'' args w =
          (Inr [JObj [(''type'', JStr ''json''), (''json'', fetched)]],
           \<lparr>memory = (memory w)\<lparr>lastProject := (if truthy fetched then fetched else JNull)\<rparr>,
            ext = b,
            calls = calls w1 @ [Http (Request GET (Project i) None)]\<rparr>))"
proof -
  let ?w2 = "w1\<lparr>ext := b, calls := calls w1 @ [Http (Request GET (Project i) None)]\<rparr>"
  let ?sys = "JObj [(''role'', JStr ''system''),
                    (''content'', JStr (''You are a concise summarizer. Summarize the project notes into 1''
                                        @ [CHR 0xE2, CHR 0x80, CHR 0x93] @ ''2 sentences.''))]"
  note mem = get_resolve_id_memory [OF assms(1)]
  have on: ?thesis if key: "OPENAI_API_KEY S \<noteq> []" and nts: "truthy_opt (lookup fetched ''notes'')"
  proof -
    from nts obtain kvs where obj: "fetched = JObj kvs" using notes_object by blast
    have a: "runTool S ''projects.get'' args w =
                (Inr [JObj [(''type'', JStr ''json''),
                            (''json'', JObj (AList.update ''notes_summary_error''
                                (JStr ''Cannot convert object to primitive value'') kvs))]],
                 \<lparr>memory = (memory w)\<lparr>lastProject := JObj (AList.update ''notes_summary_error''
                                (JStr ''Cannot convert object to primitive value'') kvs)\<rparr>,
                  ext = b,
                  calls = calls w1 @ [Http (Request GET (Project i) None)]\<rparr>)"
      if s: "js_String_opt (rt S) (lookup fetched ''notes'') = Inl e" for e
    proof -
      have e: "e = cannot_convert" using js_String_opt_error [OF s] .
      have "summarize_notes S fetched ?w2 =
              (JObj (AList.update ''notes_summary_error''
                        (JStr ''Cannot convert object to primitive value'') kvs), ?w2)"
        using key nts s e
        by (simp add: summarize_notes_def obj set_prop_def caught_string_def message_def cannot_convert_def)
      from projects_get_after_fetch [OF assms this] mem show ?thesis
        by (simp add: truthy_object)
    qed
    have b: "runTool S ''projects.get'' args w =
                (Inr [JObj [(''type'', JStr ''json''),
                            (''json'', JObj (AList.update ''notes_summary_error'' (JStr (caught_string e)) kvs))]],
                 \<lparr>memory = (memory w)\<lparr>lastProject :=
                              JObj (AList.update ''notes_summary_error'' (JStr (caught_string e)) kvs)\<rparr>,
                  ext = b',
                  calls = calls w1 @ [Http (Request GET (Project i) None),
                    OpenAI [?sys, JObj [(''role'', JStr ''user''), (''content'', JStr t)]] 120]\<rparr>)"
      if s: "js_String_opt (rt S) (lookup fetched ''notes'') = Inr t"
        and l: "openai S b [?sys, JObj [(''role'', JStr ''user''), (''content'', JStr t)]] 120 = (Inl e, b')"
      for t e b'
    proof -
      have "summarize_notes S fetched ?w2 =
              (JObj (AList.update ''notes_summary_error'' (JStr (caught_string e)) kvs),
               ?w2\<lparr>ext := b', calls := calls ?w2 @ [OpenAI [?sys, JObj [(''role'', JStr ''user''), (''content'', JStr t)]] 120]\<rparr>)"
        using key nts s l
        by (simp add: summarize_notes_def callOpenAI_def obj set_prop_def msg_def en_dash_def)
      from projects_get_after_fetch [OF assms this] mem show ?thesis
        by (simp add: truthy_object)
    qed
    have c: "runTool S ''projects.get'' args w =
                (Inr [JObj [(''type'', JStr ''json''),
                            (''json'', JObj (AList.update ''notes_summary'' (reply j) kvs))]],
                 \<lparr>memory = (memory w)\<lparr>lastProject := JObj (AList.update ''notes_summary'' (reply j) kvs)\<rparr>,
                  ext = b',
                  calls = calls w1 @ [Http (Request GET (Project i) None),
                    OpenAI [?sys, JObj [(''role'', JStr ''user''), (''content'', JStr t)]] 120]\<rparr>)"
      if s: "js_String_opt (rt S) (lookup fetched ''notes'') = Inr t"
        and l: "openai S b [?sys, JObj [(''role'', JStr ''user''), (''content'', JStr t)]] 120 = (Inr j, b')"
      for t j b'
    proof -
      have "summarize_notes S fetched ?w2 =
              (JObj (AList.update ''notes_summary'' (reply j) kvs),
               ?w2\<lparr>ext := b', calls := calls ?w2 @ [OpenAI [?sys, JObj [(''role'', JStr ''user''), (''content'', JStr t)]] 120]\<rparr>)"
        using key nts s l
        by (simp add: summarize_notes_def callOpenAI_def obj set_prop_def msg_def en_dash_def)
      from projects_get_after_fetch [OF assms this] mem show ?thesis
        by (simp add: truthy_object)
    qed
    from key nts obj a b c show ?thesis by blast
  qed
  have off: ?thesis if o: "OPENAI_API_KEY S = [] \<or> \<not> truthy_opt (lookup fetched ''notes'')"
  proof -
    have "summarize_notes S fetched ?w2 = (fetched, ?w2)"
      using o by (auto simp add: summarize_notes_def)
    from projects_get_after_fetch [OF assms this] mem
    have "runTool S ''projects.get'' args w =
          (Inr [JObj [(''type'', JStr ''json''), (''json'', fetched)]],
           \<lparr>memory = (memory w)\<lparr>lastProject := (if truthy fetched then fetched else JNull)\<rparr>,
            ext = b,
            calls = calls w1 @ [Http (Request GET (Project i) None)]\<rparr>)"
      by simp
    with o show ?thesis by blast
  qed
  from on off show ?thesis by blast
qed

text \<open>
  The theorem at three runs against an entity with notes: a provider that answers with an
  error, no credential, and notes that cannot be converted to a string.
\<close>

theorem C6_witness:
  "runTool (test_sys ''sk-test'' noted_backend (\<lambda>n ms. Inl (Error ''OpenAI API error 429: rate limited'')))
           ''projects.get'' (JObj [(''id'', JStr ''1'')]) (test_world JNull [])
     = (Inr [JObj [(''type'', JStr ''json''),
                   (''json'', JObj [(''id'', JStr ''1''), (''notes'', JStr ''long text''),
                               (''notes_summary_error'', JStr ''OpenAI API error 429: rate limited'')])]],
        \<lparr>memory = \<lparr>lastProject = JObj [(''id'', JStr ''1''), (''notes'', JStr ''long text''),
                               (''notes_summary_error'', JStr ''OpenAI API error 429: rate limited'')],
                    lastSearchItems = []\<rparr>,
         ext = 2,
         calls = [Http (Request GET (Project ''1'') None),
                  OpenAI [JObj [(''role'', JStr ''system''),
                                (''content'', JStr (''You are a concise summarizer. Summarize the project notes into 1''
                                                    @ [CHR 0xE2, CHR 0x80, CHR 0x93] @ ''2 sentences.''))],
                          JObj [(''role'', JStr ''user''), (''content'', JStr ''long text'')]] 120]\<rparr>)
   \<and> runTool (test_sys [] noted_backend (\<lambda>n ms. Inl (Error ''OpenAI API error 429: rate limited'')))
           ''projects.get'' (JObj [(''id'', JStr ''1'')]) (test_world JNull [])
     = (Inr [JObj [(''type'', JStr ''json''),
                   (''json'', JObj [(''id'', JStr ''1''), (''notes'', JStr ''long text'')])]],
        \<lparr>memory = \<lparr>lastProject = JObj [(''id'', JStr ''1''), (''notes'', JStr ''long text'')],
                    lastSearchItems = []\<rparr>,
         ext = 1,
         calls = [Http (Request GET (Project ''1'') None)]\<rparr>)
   \<and> runTool (test_sys ''sk-test''
                (\<lambda>n r. Inr (JObj [(''id'', JStr ''1''), (''notes'', JObj [(''toString'', JNum (Fin 0))])]))
                short_llm)
           ''projects.get'' (JObj [(''id'', JStr ''1'')]) (test_world JNull [])
     = (Inr [JObj [(''type'', JStr ''json''),
                   (''json'', JObj [(''id'', JStr ''1''), (''notes'', JObj [(''toString'', JNum (Fin 0))]),
                               (''notes_summary_error'', JStr ''Cannot convert object to primitive value'')])]],
        \<lparr>memory = \<lparr>lastProject = JObj [(''id'', JStr ''1''), (''notes'', JObj [(''toString'', JNum (Fin 0))]),
                               (''notes_summary_error'', JStr ''Cannot convert object to primitive value'')],
                    lastSearchItems = []\<rparr>,
         ext = 1,
         calls = [Http (Request GET (Project ''1'') None)]\<rparr>)"
proof -
  let ?llm = "\<lambda>(n::nat) (ms::json list). (Inl (Error ''OpenAI API error 429: rate limited'') :: error + json)"
  let ?be = "\<lambda>(n::nat) (r::request). (Inr (JObj [(''id'', JStr ''1''), (''notes'', JObj [(''toString'', JNum (Fin 0))])]) :: error + json)"
  let ?S = "test_sys ''sk-test'' noted_backend ?llm"
  let ?T = "test_sys [] noted_backend ?llm"
  let ?U = "test_sys ''sk-test'' ?be short_llm"
  let ?a = "JObj [(''id'', JStr ''1'')]"
  let ?f = "JObj [(''id'', JStr ''1''), (''notes'', JStr ''long text'')]"
  let ?g = "JObj [(''id'', JStr ''1''), (''notes'', JObj [(''toString'', JNum (Fin 0))])]"
  let ?w = "test_world JNull []"
  let ?sys = "JObj [(''role'', JStr ''system''),
                    (''content'', JStr (''You are a concise summarizer. Summarize the project notes into 1''
                                        @ [CHR 0xE2, CHR 0x80, CHR 0x93] @ ''2 sentences.''))]"
  have r1: "get_resolve_id ?S ?a ?w = (Inr ''1'', ?w)"
    by (simp add: get_resolve_id_def value_defs test_defs)
  have h1: "http ?S (ext ?w) (Request GET (Project ''1'') None) = (Inr ?f, 1)"
    by (simp add: test_defs noted_backend_def)
  have r2: "get_resolve_id ?T ?a ?w = (Inr ''1'', ?w)"
    by (simp add: get_resolve_id_def value_defs test_defs)
  have h2: "http ?T (ext ?w) (Request GET (Project ''1'') None) = (Inr ?f, 1)"
    by (simp add: test_defs noted_backend_def)
  have r3: "get_resolve_id ?U ?a ?w = (Inr ''1'', ?w)"
    by (simp add: get_resolve_id_def value_defs test_defs)
  have h3: "http ?U (ext ?w) (Request GET (Project ''1'') None) = (Inr ?g, 1)"
    by (simp add: test_defs)
  have on1: "OPENAI_API_KEY ?S \<noteq> [] \<and> truthy_opt (lookup ?f ''notes'')"
    by (simp add: test_sys_def value_defs)
  have s1: "js_String_opt (rt ?S) (lookup ?f ''notes'') = Inr ''long text''"
    by (simp add: value_defs)
  have l1: "openai ?S 1 [?sys, JObj [(''role'', JStr ''user''), (''content'', JStr ''long text'')]] 120
              = (Inl (Error ''OpenAI API error 429: rate limited''), 2)"
    by (simp add: test_sys_def)
  have off2: "OPENAI_API_KEY ?T = [] \<or> \<not> truthy_opt (lookup ?f ''notes'')"
    by (simp add: test_sys_def)
  have on3: "OPENAI_API_KEY ?U \<noteq> [] \<and> truthy_opt (lookup ?g ''notes'')"
    by (simp add: test_sys_def value_defs)
  have s3: "js_String_opt (rt ?U) (lookup ?g ''notes'') = Inl (TypeError ''Cannot convert object to primitive value'')"
    by (simp add: value_defs)
  have a: "runTool ?S ''projects.get'' ?a ?w =
             (Inr [JObj [(''type'', JStr ''json''),
                         (''json'', JObj (AList.update ''notes_summary_error''
                              (JStr (caught_string (Error ''OpenAI API error 429: rate limited'')))
                              [(''id'', JStr ''1''), (''notes'', JStr ''long text'')]))]],
              \<lparr>memory = (memory ?w)\<lparr>lastProject := JObj (AList.update ''notes_summary_error''
                              (JStr (caught_string (Error ''OpenAI API error 429: rate limited'')))
                              [(''id'', JStr ''1''), (''notes'', JStr ''long text'')])\<rparr>,
               ext = 2,
               calls = calls ?w @ [Http (Request GET (Project ''1'') None),
                  OpenAI [?sys, JObj [(''role'', JStr ''user''), (''content'', JStr ''long text'')]] 120]\<rparr>)"
    using C6_notes_summary_is_best_effort [OF r1 h1] on1 s1 l1 by blast
  have b: "runTool ?T ''projects.get'' ?a ?w =
             (Inr [JObj [(''type'', JStr ''json''), (''json'', ?f)]],
              \<lparr>memory = (memory ?w)\<lparr>lastProject := (if truthy ?f then ?f else JNull)\<rparr>,
               ext = 1,
               calls = calls ?w @ [Http (Request GET (Project ''1'') None)]\<rparr>)"
    using C6_notes_summary_is_best_effort [OF r2 h2] off2 by blast
  have c: "runTool ?U ''projects.get'' ?a ?w =
             (Inr [JObj [(''type'', JStr ''json''),
                         (''json'', JObj (AList.update ''notes_summary_error''
                              (JStr ''Cannot convert object to primitive value'')
                              [(''id'', JStr ''1''), (''notes'', JObj [(''toString'', JNum (Fin 0))])]))]],
              \<lparr>memory = (memory ?w)\<lparr>lastProject := JObj (AList.update ''notes_summary_error''
                              (JStr ''Cannot convert object to primitive value'')
                              [(''id'', JStr ''1''), (''notes'', JObj [(''toString'', JNum (Fin 0))])])\<rparr>,
               ext = 1,
               calls = calls ?w @ [Http (Request GET (Project ''1'') None)]\<rparr>)"
    using C6_notes_summary_is_best_effort [OF r3 h3] on3 s3 by blast
  show ?thesis
    unfolding a b c
    by (simp add: caught_string_def message_def test_world_def)
qed


section \<open>The batch of deleteRandom\<close>

lemma batchLimit_cases:
  "batchLimit R args = Inr (batch_size args)"
  by (simp add: batchLimit_def batch_size_def Number_isFinite_def isFinite_def Math_max1_def js_Number_opt_def
        js_Number_def split: option.splits json.splits jsnum.splits)

lemma deleteRandom_first_call:
  "\<exists>rest. calls (snd (projects_deleteRandom S args w)) =
      calls w @ Http (Request GET (Projects [(''limit'', num_String (rt S) (batch_size args))]) None) # rest"
  by (auto simp add: projects_deleteRandom_def batchLimit_cases fetchSomeProjects_def do_http_def Let_def
        split: prod.splits sum.splits)

lemma deleteRandom_empty_batch:
  assumes "http S (ext w) (Request GET (Projects [(''limit'', num_String (rt S) (batch_size args))]) None)
             = (Inr result, b)"
    and "normalizeListPayload (rt S) result = Inr p"
    and "items p = []"
  shows "projects_deleteRandom S args w =
           (Inl (Error ''No projects available to delete.''),
            w\<lparr>ext := b, calls := calls w @ [Http (Request GET (Projects [(''limit'', num_String (rt S) (batch_size args))]) None)]\<rparr>)"
  using assms by (simp add: projects_deleteRandom_def batchLimit_cases fetchSomeProjects_def do_http_def)

lemma dec_1: "dec (Suc 0) = ''1''"
  by code_simp

text \<open>
  Claim C7. In every deleteRandom invocation the batch size is computed without an error
  and is 25 when \<open>limit\<close> is absent or not a finite number and the larger of 1 and \<open>limit\<close>
  otherwise, so that a limit of 0 asks for 1; the first request of the invocation is the
  list request with that limit; and when the batch comes back empty the invocation fails
  with the no-projects error having issued that one request and no delete.
\<close>

theorem C7_deleteRandom_batch_size:
  "batchLimit (rt S) args = Inr (batch_size args)
   \<and> batch_size args =
      (case lookup args ''limit'' of Some (JNum (Fin r)) \<Rightarrow> Fin (max 1 r) | _ \<Rightarrow> Fin 25)
   \<and> (lookup args ''limit'' = Some (JNum (Fin 0)) \<longrightarrow> batchLimit (rt S) args = Inr (Fin 1))
   \<and> (\<exists>rest. calls (snd (runTool S ''projects.deleteRandom'' args w)) =
          calls w @ Http (Request GET (Projects [(''limit'', num_String (rt S) (batch_size args))]) None) # rest)
   \<and> (\<forall>result b p.
         http S (ext w) (Request GET (Projects [(''limit'', num_String (rt S) (batch_size args))]) None)
           = (Inr result, b) \<longrightarrow>
         normalizeListPayload (rt S) result = Inr p \<longrightarrow> items p = [] \<longrightarrow>
         runTool S ''projects.deleteRandom'' args w =
           (Inl (Error ''No projects available to delete.''),
            w\<lparr>ext := b, calls := calls w @ [Http (Request GET (Projects [(''limit'', num_String (rt S) (batch_size args))]) None)]\<rparr>))"
proof (intro conjI allI impI)
  show "batchLimit (rt S) args = Inr (batch_size args)"
    by (rule batchLimit_cases)
next
  show "batch_size args =
      (case lookup args ''limit'' of Some (JNum (Fin r)) \<Rightarrow> Fin (max 1 r) | _ \<Rightarrow> Fin 25)"
    by (rule batch_size_def)
next
  assume "lookup args ''limit'' = Some (JNum (Fin 0))"
  then show "batchLimit (rt S) args = Inr (Fin 1)" by (simp add: batchLimit_cases batch_size_def)
next
  show "\<exists>rest. calls (snd (runTool S ''projects.deleteRandom'' args w)) =
          calls w @ Http (Request GET (Projects [(''limit'', num_String (rt S) (batch_size args))]) None) # rest"
    unfolding run_deleteRandom by (rule deleteRandom_first_call)
next
  fix result b p
  assume "http S (ext w) (Request GET (Projects [(''limit'', num_String (rt S) (batch_size args))]) None)
           = (Inr result, b)"
    and "normalizeListPayload (rt S) result = Inr p" and "items p = []"
  then show "runTool S ''projects.deleteRandom'' args w =
           (Inl (Error ''No projects available to delete.''),
            w\<lparr>ext := b, calls := calls w @ [Http (Request GET (Projects [(''limit'', num_String (rt S) (batch_size args))]) None)]\<rparr>)"
    unfolding run_deleteRandom by (rule deleteRandom_empty_batch)
qed

text \<open>
  The theorem at \<open>limit = 0\<close> against a backend with no projects: the request asks for one
  project, the invocation fails, and the list request is the only call.
\<close>

theorem C7_witness:
  "runTool (test_sys [] (\<lambda>n r. Inr (JArr [])) (\<lambda>n ms. Inr JNull))
     ''projects.deleteRandom'' (JObj [(''limit'', JNum (Fin 0))]) (test_world (JObj [(''id'', JStr ''3'')]) [])
   = (Inl (Error ''No projects available to delete.''),
      \<lparr>memory = \<lparr>lastProject = JObj [(''id'', JStr ''3'')], lastSearchItems = []\<rparr>,
       ext = 1,
       calls = [Http (Request GET (Projects [(''limit'', ''1'')]) None)]\<rparr>)"
proof -
  let ?S = "test_sys [] (\<lambda>n r. Inr (JArr [])) (\<lambda>n ms. Inr JNull)"
  let ?a = "JObj [(''limit'', JNum (Fin 0))]"
  let ?w = "test_world (JObj [(''id'', JStr ''3'')]) []"
  have l: "lookup ?a ''limit'' = Some (JNum (Fin 0))" by (simp add: lookup_def)
  have "batchLimit (rt ?S) ?a = Inr (Fin 1)"
    using C7_deleteRandom_batch_size [of ?S ?a ?w] l by blast
  moreover have "batchLimit (rt ?S) ?a = Inr (batch_size ?a)"
    using C7_deleteRandom_batch_size [of ?S ?a ?w] by blast
  ultimately have bl: "batch_size ?a = Fin 1" by simp
  have str: "num_String (rt ?S) (Fin 1) = ''1''"
    by (simp add: num_String_def test_defs dec_1)
  have h: "http ?S (ext ?w) (Request GET (Projects [(''limit'', num_String (rt ?S) (batch_size ?a))]) None)
             = (Inr (JArr []), 1)"
    by (simp add: test_sys_def test_world_def)
  have n: "normalizeListPayload (rt ?S) (JArr []) = Inr \<lparr>items = [], total = Fin 0\<rparr>"
    by (simp add: normalizeListPayload_def len_def)
  have "runTool ?S ''projects.deleteRandom'' ?a ?w =
           (Inl (Error ''No projects available to delete.''),
            ?w\<lparr>ext := 1, calls := calls ?w @ [Http (Request GET (Projects [(''limit'', num_String (rt ?S) (batch_size ?a))]) None)]\<rparr>)"
    using C7_deleteRandom_batch_size [of ?S ?a ?w] h n by simp
  then show ?thesis
    unfolding bl str by (simp add: test_world_def)
qed


section \<open>Reading the router's reply\<close>

lemma brace_match_some:
  assumes "CHR ''{'' \<notin> set pre" and "CHR ''}'' \<notin> set post"
  shows "brace_match (pre @ CHR ''{'' # mid @ CHR ''}'' # post) = Some (CHR ''{'' # mid @ [CHR ''}''])"
proof -
  have 1: "dropWhile (\<lambda>c. c \<noteq> CHR ''{'') (pre @ CHR ''{'' # mid @ CHR ''}'' # post)
             = CHR ''{'' # mid @ CHR ''}'' # post"
    using assms(1) by (auto simp add: dropWhile_append3)
  have 2: "dropWhile (\<lambda>c. c \<noteq> CHR ''}'') (rev (CHR ''{'' # mid @ CHR ''}'' # post))
             = CHR ''}'' # rev mid @ [CHR ''{'']"
    using assms(2) by (auto simp add: dropWhile_append3)
  show ?thesis unfolding brace_match_def 1 2 by simp
qed

lemma brace_match_shape:
  assumes "brace_match t = Some m"
  shows "\<exists>pre mid post. t = pre @ CHR ''{'' # mid @ CHR ''}'' # post
           \<and> CHR ''{'' \<notin> set pre \<and> CHR ''}'' \<notin> set post \<and> m = CHR ''{'' # mid @ [CHR ''}'']"
proof -
  define u where "u = dropWhile (\<lambda>c. c \<noteq> CHR ''{'') t"
  define pre where "pre = takeWhile (\<lambda>c. c \<noteq> CHR ''{'') t"
  define v where "v = dropWhile (\<lambda>c. c \<noteq> CHR ''}'') (rev u)"
  define post where "post = rev (takeWhile (\<lambda>c. c \<noteq> CHR ''}'') (rev u))"
  have m: "m = rev v" and v: "v \<noteq> []"
    using assms by (auto simp add: brace_match_def Let_def u_def v_def split: if_splits)
  have t: "t = pre @ u" by (simp add: pre_def u_def)
  have u: "u = rev v @ post"
    unfolding v_def post_def by (metis rev_append rev_rev_ident takeWhile_dropWhile_id)
  have "hd v = CHR ''}''"
    using hd_dropWhile [of "\<lambda>c. c \<noteq> CHR ''}''" "rev u"] v by (simp add: v_def)
  with v obtain v' where v': "v = CHR ''}'' # v'" by (cases v) auto
  have une: "u \<noteq> []" using u v by simp
  have hu: "hd u = CHR ''{''"
    using hd_dropWhile [of "\<lambda>c. c \<noteq> CHR ''{''" t] une by (simp add: u_def)
  have u2: "u = rev v' @ CHR ''}'' # post" using u v' by simp
  have "rev v' \<noteq> []"
  proof
    assume "rev v' = []"
    with u2 have "u = CHR ''}'' # post" by simp
    with hu show False by simp
  qed
  then obtain c mid where rv: "rev v' = c # mid" by (cases "rev v'") auto
  with u2 hu have c: "c = CHR ''{''" by simp
  have shape: "t = pre @ CHR ''{'' # mid @ CHR ''}'' # post"
    using t u2 rv c by simp
  have p1: "CHR ''{'' \<notin> set pre" unfolding pre_def by (auto dest: set_takeWhileD)
  have p2: "CHR ''}'' \<notin> set post" unfolding post_def by (auto dest: set_takeWhileD)
  have m2: "m = CHR ''{'' # mid @ [CHR ''}'']" using m v' rv c by simp
  from shape p1 p2 m2 show ?thesis by blast
qed

lemma brace_match_none:
  assumes "\<not> (\<exists>pre mid post. t = pre @ CHR ''{'' # mid @ CHR ''}'' # post)"
  shows "brace_match t = None"
proof (cases "brace_match t")
  case None
  then show ?thesis .
next
  case (Some m)
  from brace_match_shape [OF this] assms show ?thesis by blast
qed

lemmas plan_defs = parse_plan_def plan_as_claimed_def brace_match_def test_runtime_def parses_only_def

text \<open>
  Claim C8 says that a reply that is not JSON as a whole has its first balanced-brace
  substring extracted and parsed. The expression matches from the first opening brace
  to the last closing brace of the reply instead. On a reply that shows the plan and
  then mentions another object the two differ: the match runs to the end of the second
  object, is not JSON, and the call fails with the parser's error, where the first
  balanced substring is the plan.
\<close>

theorem C8_first_balanced_counterexample:
  "parse_plan (test_runtime ''{\"tool\":\"x\"}'' (JObj [(''tool'', JStr ''x'')]))
     ''Plan: {\"tool\":\"x\"} (not {\"tool\":\"y\"})''
     = Inl (SyntaxError ''Unexpected token'')
   \<and> plan_as_claimed (test_runtime ''{\"tool\":\"x\"}'' (JObj [(''tool'', JStr ''x'')]))
     ''Plan: {\"tool\":\"x\"} (not {\"tool\":\"y\"})''
     = Inr (JObj [(''tool'', JStr ''x'')])"
  by (simp add: plan_defs)

text \<open>
  Claim C8, amended. A reply that parses as JSON is the plan. Otherwise the substring
  from the first opening brace to the last closing brace after it is parsed, and its
  result, plan or parse error, is the result. A reply without an opening brace followed
  by a closing one fails with the error \<open>Router did not return JSON\<close>.
\<close>

theorem C8_plan_from_first_to_last_brace:
  "(\<forall>plan. JSON_parse R t = Inr plan \<longrightarrow> parse_plan R t = Inr plan)
   \<and> (\<forall>e pre mid post.
         JSON_parse R t = Inl e \<and> t = pre @ CHR ''{'' # mid @ CHR ''}'' # post
         \<and> CHR ''{'' \<notin> set pre \<and> CHR ''}'' \<notin> set post \<longrightarrow>
         parse_plan R t = JSON_parse R (CHR ''{'' # mid @ [CHR ''}'']))
   \<and> (\<forall>e. JSON_parse R t = Inl e
         \<and> \<not> (\<exists>pre mid post. t = pre @ CHR ''{'' # mid @ CHR ''}'' # post) \<longrightarrow>
         parse_plan R t = Inl (Error ''Router did not return JSON''))"
proof (intro conjI allI impI)
  fix plan
  assume "JSON_parse R t = Inr plan"
  then show "parse_plan R t = Inr plan" by (simp add: parse_plan_def)
next
  fix e pre mid post
  assume h: "JSON_parse R t = Inl e \<and> t = pre @ CHR ''{'' # mid @ CHR ''}'' # post
         \<and> CHR ''{'' \<notin> set pre \<and> CHR ''}'' \<notin> set post"
  then have e: "JSON_parse R t = Inl e" and t: "t = pre @ CHR ''{'' # mid @ CHR ''}'' # post"
    and pre: "CHR ''{'' \<notin> set pre" and post: "CHR ''}'' \<notin> set post" by blast+
  have "brace_match t = Some (CHR ''{'' # mid @ [CHR ''}''])"
    unfolding t by (rule brace_match_some [OF pre post])
  with e show "parse_plan R t = JSON_parse R (CHR ''{'' # mid @ [CHR ''}''])"
    by (simp add: parse_plan_def)
next
  fix e
  assume h: "JSON_parse R t = Inl e
         \<and> \<not> (\<exists>pre mid post. t = pre @ CHR ''{'' # mid @ CHR ''}'' # post)"
  then have "brace_match t = None" using brace_match_none [of t] by blast
  with h show "parse_plan R t = Inl (Error ''Router did not return JSON'')"
    by (simp add: parse_plan_def)
qed

text \<open>
  The theorem at a plan inside prose, at a bare plan, and at a reply without braces.
\<close>

theorem C8_witness:
  "parse_plan (test_runtime ''{\"tool\":\"x\"}'' (JObj [(''tool'', JStr ''x'')]))
     ''Sure: {\"tool\":\"x\"} ok'' = Inr (JObj [(''tool'', JStr ''x'')])
   \<and> parse_plan (test_runtime ''{\"tool\":\"x\"}'' (JObj [(''tool'', JStr ''x'')]))
     ''{\"tool\":\"x\"}'' = Inr (JObj [(''tool'', JStr ''x'')])
   \<and> parse_plan (test_runtime ''{\"tool\":\"x\"}'' (JObj [(''tool'', JStr ''x'')]))
     ''no plan here'' = Inl (Error ''Router did not return JSON'')"
proof -
  let ?R = "test_runtime ''{\"tool\":\"x\"}'' (JObj [(''tool'', JStr ''x'')])"
  have p0: "JSON_parse ?R ''{\"tool\":\"x\"}'' = Inr (JObj [(''tool'', JStr ''x'')])"
    by (simp add: test_runtime_def parses_only_def)
  have p1: "JSON_parse ?R ''Sure: {\"tool\":\"x\"} ok'' = Inl (SyntaxError ''Unexpected token'')"
    by (simp add: test_runtime_def parses_only_def)
  have p2: "JSON_parse ?R ''no plan here'' = Inl (SyntaxError ''Unexpected token'')"
    by (simp add: test_runtime_def parses_only_def)
  have a: "parse_plan ?R ''Sure: {\"tool\":\"x\"} ok'' = JSON_parse ?R (CHR ''{'' # ''\"tool\":\"x\"'' @ [CHR ''}''])"
  proof -
    have "JSON_parse ?R ''Sure: {\"tool\":\"x\"} ok'' = Inl (SyntaxError ''Unexpected token'')
          \<and> ''Sure: {\"tool\":\"x\"} ok'' = ''Sure: '' @ CHR ''{'' # ''\"tool\":\"x\"'' @ CHR ''}'' # '' ok''
          \<and> CHR ''{'' \<notin> set ''Sure: '' \<and> CHR ''}'' \<notin> set '' ok''"
      using p1 by simp
    with C8_plan_from_first_to_last_brace [of ?R "''Sure: {\"tool\":\"x\"} ok''"]
    show ?thesis by blast
  qed
  have b: "parse_plan ?R ''{\"tool\":\"x\"}'' = Inr (JObj [(''tool'', JStr ''x'')])"
    using C8_plan_from_first_to_last_brace [of ?R "''{\"tool\":\"x\"}''"] p0 by blast
  have none: "\<not> (\<exists>pre mid post. ''no plan here'' = pre @ CHR ''{'' # mid @ CHR ''}'' # post)"
  proof
    assume "\<exists>pre mid post. ''no plan here'' = pre @ CHR ''{'' # mid @ CHR ''}'' # post"
    then obtain pre mid post where "''no plan here'' = pre @ CHR ''{'' # mid @ CHR ''}'' # post" by blast
    then have "set ''no plan here'' = set (pre @ CHR ''{'' # mid @ CHR ''}'' # post)" by (rule arg_cong)
    then have "CHR ''{'' \<in> set ''no plan here''" by simp
    then show False by simp
  qed
  have c: "parse_plan ?R ''no plan here'' = Inl (Error ''Router did not return JSON'')"
    using C8_plan_from_first_to_last_brace [of ?R "''no plan here''"] p2 none by blast
  show ?thesis unfolding a b c using p0 by simp
qed


section \<open>The field an identifier is read from\<close>

text \<open>
  Claim C3 says that every read of an entity's identifier accepts \<open>id\<close> or \<open>projectId\<close>.
  The name search and deleteRandom do; the two memory tiers of get and delete read \<open>id\<close>
  only. Against a backend whose projects carry \<open>projectId\<close>: a get by name finds the project
  and remembers it, and the get or delete without arguments that follows fails for want
  of an identifier; the same after a search that remembered the project as its first item.
\<close>

theorem C3_memory_tiers_read_id_only:
  "(case runTool (test_sys [] projectId_backend (\<lambda>n ms. Inr JNull)) ''projects.get''
           (JObj [(''projectName'', JStr ''Oak'')]) (test_world JNull []) of
      (r1, w1) \<Rightarrow>
        r1 = Inr (json_block (JObj [(''projectId'', JStr ''9''), (''projectName'', JStr ''Oak'')]))
        \<and> lastProject (memory w1) = JObj [(''projectId'', JStr ''9''), (''projectName'', JStr ''Oak'')]
        \<and> fst (runTool (test_sys [] projectId_backend (\<lambda>n ms. Inr JNull)) ''projects.get'' (JObj []) w1)
            = Inl (Error provide_msg)
        \<and> fst (runTool (test_sys [] projectId_backend (\<lambda>n ms. Inr JNull)) ''projects.delete'' (JObj []) w1)
            = Inl (Error provide_msg))
   \<and> (case runTool (test_sys [] projectId_backend (\<lambda>n ms. Inr JNull)) ''projects.search''
           (JObj [(''q'', JStr ''Oak'')]) (test_world JNull []) of
      (r1, w1) \<Rightarrow>
        lastSearchItems (memory w1) = [JObj [(''projectId'', JStr ''9''), (''projectName'', JStr ''Oak'')]]
        \<and> fst (runTool (test_sys [] projectId_backend (\<lambda>n ms. Inr JNull)) ''projects.get'' (JObj []) w1)
            = Inl (Error provide_msg)
        \<and> fst (runTool (test_sys [] projectId_backend (\<lambda>n ms. Inr JNull)) ''projects.delete'' (JObj []) w1)
            = Inl (Error provide_msg))"
proof -
  let ?S = "test_sys [] projectId_backend (\<lambda>n ms. Inr JNull)"
  let ?e = "JObj [(''projectId'', JStr ''9''), (''projectName'', JStr ''Oak'')]"
  have norm: "normalizeListPayload R (JArr [?e]) = Inr \<lparr>items = [?e], total = Fin 1\<rparr>" for R
    by (simp add: normalizeListPayload_def len_def)
  have g: "runTool ?S ''projects.get'' (JObj [(''projectName'', JStr ''Oak'')]) (test_world JNull [])
       = (Inr (json_block ?e),
          \<lparr>memory = \<lparr>lastProject = ?e, lastSearchItems = []\<rparr>, ext = 2,
           calls = [Http (Request GET (Projects [(''q'', ''Oak''), (''limit'', ''1'')]) None),
                    Http (Request GET (Project ''9'') None)]\<rparr>)"
    by (simp add: tool_defs value_defs test_defs projectId_backend_def norm)
  have s: "runTool ?S ''projects.search'' (JObj [(''q'', JStr ''Oak'')]) (test_world JNull [])
       = (Inr (json_block (payload_json \<lparr>items = [?e], total = Fin 1\<rparr>)),
          \<lparr>memory = \<lparr>lastProject = JNull, lastSearchItems = [?e]\<rparr>, ext = 1,
           calls = [Http (Request GET (Projects [(''q'', ''Oak'')]) None)]\<rparr>)"
    by (simp add: tool_defs value_defs test_defs projectId_backend_def norm)
  have f: "fst (runTool ?S name (JObj []) \<lparr>memory = \<lparr>lastProject = p, lastSearchItems = xs\<rparr>, ext = n, calls = cs\<rparr>)
             = Inl (Error provide_msg)"
    if "name = ''projects.get'' \<or> name = ''projects.delete''"
      and "lookup p ''id'' = None" and "first_item_id xs = None" for name p xs n cs
    using that by (auto simp add: tool_defs hasNonEmptyString_def lookup_def no_id_def truthy_opt_def)
  show ?thesis
    unfolding g s by (simp add: f lookup_def first_item_id_def)
qed


section \<open>The rendered search table\<close>

lemma escape_pipes_escaped: "pipes_escaped b (escape_pipes s)"
  by (induction s arbitrary: b) (simp_all add: escape_pipes_def)

lemma escape_pipes_plain: "CHR ''|'' \<notin> set s \<Longrightarrow> escape_pipes s = s"
  by (induction s) (auto simp add: escape_pipes_def)

lemma cell_escaped: "cell R f = Inr c \<Longrightarrow> pipes_escaped False c"
  by (cases f) (auto simp add: cell_def escape_pipes_escaped em_dash_def map_sum_def split: sum.splits)

lemma mdEscape_one:
  "mdEscape R (coalesce (lookup p a) (Some (JStr em_dash))) = cell R (field_of p [a])"
  by (cases "lookup p a")
     (auto simp add: mdEscape_def coalesce_def nullish_def field_of_def cell_def js_String_opt_def
        escape_pipes_plain em_dash_def)

lemma mdEscape_two:
  "mdEscape R (coalesce (coalesce (lookup p a) (lookup p b)) (Some (JStr em_dash)))
     = cell R (field_of p [a, b])"
  by (cases "lookup p a"; cases "lookup p b")
     (auto simp add: mdEscape_def coalesce_def nullish_def field_of_def cell_def js_String_opt_def
        escape_pipes_plain em_dash_def)

lemma row_text_cells:
  "p \<noteq> JNull \<Longrightarrow> row_text R p =
     (case cell R (field_of p [''projectName'', ''name'']) of Inl e \<Rightarrow> Inl e | Inr c1 \<Rightarrow>
      case cell R (field_of p [''address'']) of Inl e \<Rightarrow> Inl e | Inr c2 \<Rightarrow>
      case cell R (field_of p [''zoningCode'', ''zoning_code'']) of Inl e \<Rightarrow> Inl e | Inr c3 \<Rightarrow>
      case cell R (field_of p [''zoneType'', ''zone_type'']) of Inl e \<Rightarrow> Inl e | Inr c4 \<Rightarrow>
      case cell R (field_of p [''id'', ''projectId'']) of Inl e \<Rightarrow> Inl e | Inr c5 \<Rightarrow>
        Inr (''| '' @ c1 @ '' | '' @ c2 @ '' | '' @ c3 @ '' | '' @ c4 @ '' | `'' @ c5 @ ''` |''))"
  by (simp add: row_text_def columns_def row_of_cells_def split: sum.splits)

lemma render_row_text: "render_row R p = row_text R p"
proof (cases "p = JNull")
  case True
  then show ?thesis by (simp add: render_row_def row_text_def null_read_def)
next
  case False
  show ?thesis
    unfolding row_text_cells [OF False]
    by (simp only: render_row_def Let_def mdEscape_one mdEscape_two False if_False)
qed

lemma collect_all: "map f xs = map Inr rows \<Longrightarrow> collect (map f xs) = Inr rows"
  by (induction xs arbitrary: rows) auto

lemma collect_first:
  "\<forall>y \<in> set ys. \<exists>r. f y = Inr r \<Longrightarrow> f x = Inl e \<Longrightarrow> collect (map f (ys @ x # zs)) = Inl e"
  by (induction ys) auto

lemma cell_error: "cell R f = Inl e \<Longrightarrow> e = cannot_convert"
  by (cases f) (auto simp add: cell_def map_sum_def split: sum.splits dest: js_String_error)

lemma row_text_error:
  assumes "row_text R x = Inl e"
  shows "(x = JNull \<and> e = TypeError ''Cannot read properties of null (reading 'projectName')'')
         \<or> (x \<noteq> JNull \<and> e = TypeError ''Cannot convert object to primitive value'')"
proof (cases "x = JNull")
  case True
  with assms show ?thesis by (simp add: row_text_def)
next
  case False
  from assms have "e = cannot_convert"
    unfolding row_text_cells [OF False]
    by (auto split: sum.splits dest: cell_error)
  with False show ?thesis by (simp add: cannot_convert_def)
qed

lemma field_of_None: "\<forall>k \<in> set ks. nullish (lookup x k) \<Longrightarrow> field_of x ks = None"
proof -
  assume a: "\<forall>k \<in> set ks. nullish (lookup x k)"
  have "List.find (\<lambda>v. \<not> nullish v) (map (lookup x) ks) = None"
    using a by (induction ks) simp_all
  then show "field_of x ks = None" by (simp add: field_of_def)
qed

lemma field_of_first:
  "\<forall>k \<in> set ks. nullish (lookup x k) \<Longrightarrow> lookup x k' = Some v \<Longrightarrow> v \<noteq> JNull \<Longrightarrow>
     field_of x (ks @ k' # rest) = Some v"
proof -
  assume a: "\<forall>k \<in> set ks. nullish (lookup x k)" and b: "lookup x k' = Some v" and c: "v \<noteq> JNull"
  have "List.find (\<lambda>v. \<not> nullish v) (map (lookup x) (ks @ k' # rest)) = Some (Some v)"
    using a b c by (induction ks) (auto simp add: nullish_def)
  then show ?thesis by (simp add: field_of_def)
qed

lemma dec_12: "dec 12 = ''12''"
  by code_simp

text \<open>
  Claim C9 says that the renderer emits the sentence or the table for every normalized
  input. The normalizer keeps the elements of an array as they are, so an item can be
  \<open>null\<close>, and a field can hold an object with a \<open>toString\<close> property of its own. On the
  normalized list \<open>[null]\<close> the renderer throws when it reads the name of the item, and on
  an item whose name is such an object it throws when it converts the name to a string:
  it emits nothing.
\<close>

theorem C9_null_item_counterexample:
  "normalizeListPayload (test_runtime [] JNull) (JArr [JNull]) = Inr \<lparr>items = [JNull], total = Fin 1\<rparr>
   \<and> renderSearch (test_runtime [] JNull) \<lparr>items = [JNull], total = Fin 1\<rparr>
       = Inl (TypeError ''Cannot read properties of null (reading 'projectName')'')
   \<and> normalizeListPayload (test_runtime [] JNull)
        (JArr [JObj [(''projectName'', JObj [(''toString'', JNum (Fin 0))])]])
       = Inr \<lparr>items = [JObj [(''projectName'', JObj [(''toString'', JNum (Fin 0))])]], total = Fin 1\<rparr>
   \<and> renderSearch (test_runtime [] JNull)
        \<lparr>items = [JObj [(''projectName'', JObj [(''toString'', JNum (Fin 0))])]], total = Fin 1\<rparr>
       = Inl (TypeError ''Cannot convert object to primitive value'')"
  by (simp add: normalizeListPayload_def len_def renderSearch_def render_row_def null_read_def
        mdEscape_def value_defs)

text \<open>
  Claim C9, amended. Without items the renderer returns the no-results sentence. With
  items, when each of the first five has a row, it returns the count line, the table head
  and those rows, at most five, followed by the note \<open>Showing 5 of total results\<close> exactly
  when the total exceeds 5; when one of the first five has no row, it throws the error of
  the first such item. An item has no row when it is \<open>null\<close> (reading its name throws) or
  when one of its shown values cannot be converted to a string; otherwise its row has the
  columns name, address, zoning code, zone type and identifier, each read under its
  alternative names in order. A cell is the string of the value with every pipe
  preceded by a backslash, and an em dash when the field is absent or \<open>null\<close> under all its
  names.
\<close>

theorem C9_renderSearch_table:
  "(items p = [] \<longrightarrow> renderSearch R p = Inr ''No matching projects found.'')
   \<and> (\<forall>rows. items p \<noteq> [] \<and> map (row_text R) (take 5 (items p)) = map Inr rows \<longrightarrow>
        length rows \<le> 5
        \<and> renderSearch R p =
          Inr (''**Found '' @ num_String R (total p) @ '' project''
               @ (if total p = Fin 1 then [] else ''s'') @ ''**'' @ [CHR 0x0A, CHR 0x0A]
               @ ''| Project | Address | Zoning | Zone Type | ID |'' @ [CHR 0x0A]
               @ ''|---|---|---|---|---|'' @ [CHR 0x0A]
               @ join [CHR 0x0A] rows
               @ (if gt5 (total p)
                  then [CHR 0x0A, CHR 0x0A] @ ''_Showing 5 of '' @ num_String R (total p) @ '' results._''
                  else [])))
   \<and> (\<forall>ys x zs e. items p \<noteq> [] \<and> take 5 (items p) = ys @ x # zs
          \<and> (\<forall>y \<in> set ys. \<exists>r. row_text R y = Inr r) \<and> row_text R x = Inl e \<longrightarrow>
        renderSearch R p = Inl e)
   \<and> (\<forall>r. gt5 (Fin r) = (5 < r))
   \<and> (\<forall>e. row_text R x = Inl e \<longrightarrow>
         (x = JNull \<and> e = TypeError ''Cannot read properties of null (reading 'projectName')'')
         \<or> (x \<noteq> JNull \<and> e = TypeError ''Cannot convert object to primitive value''))
   \<and> (\<forall>c1 c2 c3 c4 c5. x \<noteq> JNull
         \<and> cell R (field_of x [''projectName'', ''name'']) = Inr c1
         \<and> cell R (field_of x [''address'']) = Inr c2
         \<and> cell R (field_of x [''zoningCode'', ''zoning_code'']) = Inr c3
         \<and> cell R (field_of x [''zoneType'', ''zone_type'']) = Inr c4
         \<and> cell R (field_of x [''id'', ''projectId'']) = Inr c5 \<longrightarrow>
         row_text R x = Inr (''| '' @ c1 @ '' | '' @ c2 @ '' | '' @ c3 @ '' | '' @ c4 @ '' | `'' @ c5 @ ''` |''))
   \<and> (\<forall>f c. cell R f = Inr c \<longrightarrow> pipes_escaped False c)
   \<and> (\<forall>s. js_String R v = Inr s \<longrightarrow> cell R (Some v) = Inr (escape_pipes s))
   \<and> (\<forall>s. CHR ''|'' \<notin> set s \<longrightarrow> escape_pipes s = s)
   \<and> cell R None = Inr [CHR 0xE2, CHR 0x80, CHR 0x94]
   \<and> (\<forall>ks. (\<forall>k \<in> set ks. nullish (lookup x k)) \<longrightarrow> field_of x ks = None)
   \<and> (\<forall>ks k rest. (\<forall>k \<in> set ks. nullish (lookup x k)) \<and> lookup x k = Some v \<and> v \<noteq> JNull \<longrightarrow>
         field_of x (ks @ k # rest) = Some v)"
proof (intro conjI allI impI)
  assume "items p = []"
  then show "renderSearch R p = Inr ''No matching projects found.''"
    by (simp add: renderSearch_def)
next
  fix rows
  assume h: "items p \<noteq> [] \<and> map (row_text R) (take 5 (items p)) = map Inr rows"
  then have "length (map (row_text R) (take 5 (items p))) = length (map Inr rows :: (error + string) list)" by simp
  then show "length rows \<le> 5" by simp
  have rr: "render_row R = row_text R" by (rule ext) (rule render_row_text)
  from h have "collect (map (row_text R) (take 5 (items p))) = Inr rows"
    by (simp add: collect_all)
  with h show "renderSearch R p =
          Inr (''**Found '' @ num_String R (total p) @ '' project''
               @ (if total p = Fin 1 then [] else ''s'') @ ''**'' @ [CHR 0x0A, CHR 0x0A]
               @ ''| Project | Address | Zoning | Zone Type | ID |'' @ [CHR 0x0A]
               @ ''|---|---|---|---|---|'' @ [CHR 0x0A]
               @ join [CHR 0x0A] rows
               @ (if gt5 (total p)
                  then [CHR 0x0A, CHR 0x0A] @ ''_Showing 5 of '' @ num_String R (total p) @ '' results._''
                  else []))"
    by (simp add: renderSearch_def more_note_def rr table_head_def)
next
  fix ys x zs e
  assume h: "items p \<noteq> [] \<and> take 5 (items p) = ys @ x # zs
          \<and> (\<forall>y \<in> set ys. \<exists>r. row_text R y = Inr r) \<and> row_text R x = Inl e"
  have rr: "render_row R = row_text R" by (rule ext) (rule render_row_text)
  from h have "collect (map (row_text R) (ys @ x # zs)) = Inl e"
    using collect_first [of ys "row_text R" x e zs] by blast
  with h show "renderSearch R p = Inl e"
    by (simp add: renderSearch_def rr)
next
  fix r show "gt5 (Fin r) = (5 < r)" by (simp add: gt5_def)
next
  fix e assume "row_text R x = Inl e"
  then show "(x = JNull \<and> e = TypeError ''Cannot read properties of null (reading 'projectName')'')
         \<or> (x \<noteq> JNull \<and> e = TypeError ''Cannot convert object to primitive value'')"
    by (rule row_text_error)
next
  fix c1 c2 c3 c4 c5
  assume "x \<noteq> JNull
         \<and> cell R (field_of x [''projectName'', ''name'']) = Inr c1
         \<and> cell R (field_of x [''address'']) = Inr c2
         \<and> cell R (field_of x [''zoningCode'', ''zoning_code'']) = Inr c3
         \<and> cell R (field_of x [''zoneType'', ''zone_type'']) = Inr c4
         \<and> cell R (field_of x [''id'', ''projectId'']) = Inr c5"
  then show "row_text R x = Inr (''| '' @ c1 @ '' | '' @ c2 @ '' | '' @ c3 @ '' | '' @ c4 @ '' | `'' @ c5 @ ''` |'')"
    by (simp add: row_text_cells)
next
  fix f c assume "cell R f = Inr c"
  then show "pipes_escaped False c" by (rule cell_escaped)
next
  fix s assume "js_String R v = Inr s"
  then show "cell R (Some v) = Inr (escape_pipes s)" by (simp add: cell_def)
next
  fix s :: string assume "CHR ''|'' \<notin> set s"
  then show "escape_pipes s = s" by (rule escape_pipes_plain)
next
  show "cell R None = Inr [CHR 0xE2, CHR 0x80, CHR 0x94]" by (simp add: cell_def em_dash_def)
next
  fix ks assume "\<forall>k \<in> set ks. nullish (lookup x k)"
  then show "field_of x ks = None" by (rule field_of_None)
next
  fix ks k rest
  assume "(\<forall>k \<in> set ks. nullish (lookup x k)) \<and> lookup x k = Some v \<and> v \<noteq> JNull"
  then show "field_of x (ks @ k # rest) = Some v"
    using field_of_first [of ks x k v rest] by blast
qed

text \<open>
  The theorem at the one-project scenario of the specification, at six items of which
  the first has a pipe in its name and the others lack every field, with a total of 12,
  at no items, and at a list whose second item is \<open>null\<close>.
\<close>

theorem C9_witness:
  "renderSearch (test_runtime [] JNull)
     \<lparr>items = [JObj [(''id'', JStr ''1''), (''projectName'', JStr ''Oak St''), (''address'', JStr ''1 Oak''),
                     (''zoningCode'', JStr ''R1''), (''zoneType'', JStr ''Residential'')]],
      total = Fin 1\<rparr>
   = Inr (''**Found 1 project**'' @ [CHR 0x0A, CHR 0x0A]
          @ ''| Project | Address | Zoning | Zone Type | ID |'' @ [CHR 0x0A]
          @ ''|---|---|---|---|---|'' @ [CHR 0x0A]
          @ ''| Oak St | 1 Oak | R1 | Residential | `1` |'')
   \<and> renderSearch (test_runtime [] JNull)
     \<lparr>items = [JObj [(''name'', JStr ''A|B'')], JObj [], JObj [], JObj [], JObj [], JObj [(''id'', JStr ''6'')]],
      total = Fin 12\<rparr>
   = Inr (''**Found 12 projects**'' @ [CHR 0x0A, CHR 0x0A]
          @ ''| Project | Address | Zoning | Zone Type | ID |'' @ [CHR 0x0A]
          @ ''|---|---|---|---|---|'' @ [CHR 0x0A]
          @ ''| A'' @ [CHR 0x5C] @ ''|B | '' @ em_dash @ '' | '' @ em_dash @ '' | '' @ em_dash @ '' | `'' @ em_dash @ ''` |'' @ [CHR 0x0A]
          @ ''| '' @ em_dash @ '' | '' @ em_dash @ '' | '' @ em_dash @ '' | '' @ em_dash @ '' | `'' @ em_dash @ ''` |'' @ [CHR 0x0A]
          @ ''| '' @ em_dash @ '' | '' @ em_dash @ '' | '' @ em_dash @ '' | '' @ em_dash @ '' | `'' @ em_dash @ ''` |'' @ [CHR 0x0A]
          @ ''| '' @ em_dash @ '' | '' @ em_dash @ '' | '' @ em_dash @ '' | '' @ em_dash @ '' | `'' @ em_dash @ ''` |'' @ [CHR 0x0A]
          @ ''| '' @ em_dash @ '' | '' @ em_dash @ '' | '' @ em_dash @ '' | '' @ em_dash @ '' | `'' @ em_dash @ ''` |''
          @ [CHR 0x0A, CHR 0x0A] @ ''_Showing 5 of 12 results._'')
   \<and> renderSearch (test_runtime [] JNull) \<lparr>items = [], total = Fin 0\<rparr> = Inr ''No matching projects found.''
   \<and> renderSearch (test_runtime [] JNull) \<lparr>items = [JObj [], JNull], total = Fin 2\<rparr>
       = Inl (TypeError ''Cannot read properties of null (reading 'projectName')'')"
proof -
  let ?R = "test_runtime [] JNull"
  let ?p1 = "\<lparr>items = [JObj [(''id'', JStr ''1''), (''projectName'', JStr ''Oak St''), (''address'', JStr ''1 Oak''),
                     (''zoningCode'', JStr ''R1''), (''zoneType'', JStr ''Residential'')]],
      total = Fin 1\<rparr>"
  let ?p2 = "\<lparr>items = [JObj [(''name'', JStr ''A|B'')], JObj [], JObj [], JObj [], JObj [], JObj [(''id'', JStr ''6'')]],
      total = Fin 12\<rparr>"
  let ?p3 = "\<lparr>items = [], total = Fin 0\<rparr>"
  let ?p4 = "\<lparr>items = [JObj [], JNull], total = Fin 2\<rparr>"
  let ?blank = "''| '' @ em_dash @ '' | '' @ em_dash @ '' | '' @ em_dash @ '' | '' @ em_dash @ '' | `'' @ em_dash @ ''` |''"
  have n1: "num_String ?R (Fin 1) = ''1''" and n12: "num_String ?R (Fin 12) = ''12''"
    by (simp_all add: num_String_def test_runtime_def dec_1 dec_12)
  have r1: "map (row_text ?R) (take 5 (items ?p1)) = map Inr [''| Oak St | 1 Oak | R1 | Residential | `1` |'']"
    by (simp add: row_text_def columns_def row_of_cells_def cell_def field_of_def lookup_def
          nullish_def escape_pipes_def)
  have r2: "map (row_text ?R) (take 5 (items ?p2)) =
              map Inr [''| A'' @ [CHR 0x5C] @ ''|B | '' @ em_dash @ '' | '' @ em_dash @ '' | '' @ em_dash @ '' | `'' @ em_dash @ ''` |'',
                       ?blank, ?blank, ?blank, ?blank]"
    by (simp add: row_text_def columns_def row_of_cells_def cell_def field_of_def lookup_def
          nullish_def escape_pipes_def)
  have r4: "take 5 (items ?p4) = [JObj []] @ JNull # []
            \<and> (\<forall>y \<in> set [JObj []]. \<exists>r. row_text ?R y = Inr r)
            \<and> row_text ?R JNull = Inl (TypeError ''Cannot read properties of null (reading 'projectName')'')"
    by (simp add: row_text_def columns_def row_of_cells_def cell_def field_of_def lookup_def
          nullish_def)
  have t1: "items ?p1 \<noteq> [] \<and> map (row_text ?R) (take 5 (items ?p1)) = map Inr [''| Oak St | 1 Oak | R1 | Residential | `1` |'']"
    by (rule conjI) (simp, rule r1)
  have t2: "items ?p2 \<noteq> [] \<and> map (row_text ?R) (take 5 (items ?p2)) =
              map Inr [''| A'' @ [CHR 0x5C] @ ''|B | '' @ em_dash @ '' | '' @ em_dash @ '' | '' @ em_dash @ '' | `'' @ em_dash @ ''` |'',
                       ?blank, ?blank, ?blank, ?blank]"
    by (rule conjI) (simp, rule r2)
  have t3: "items ?p3 = []" by simp
  have t4: "items ?p4 \<noteq> [] \<and> take 5 (items ?p4) = [JObj []] @ JNull # []
            \<and> (\<forall>y \<in> set [JObj []]. \<exists>r. row_text ?R y = Inr r)
            \<and> row_text ?R JNull = Inl (TypeError ''Cannot read properties of null (reading 'projectName')'')"
    by (rule conjI) (simp, rule r4)
  note thm1 = C9_renderSearch_table [of ?p1 ?R]
  note thm2 = C9_renderSearch_table [of ?p2 ?R]
  note thm3 = C9_renderSearch_table [of ?p3 ?R]
  note thm4 = C9_renderSearch_table [of ?p4 ?R]
  have a: "renderSearch ?R ?p1 =
          Inr (''**Found '' @ num_String ?R (total ?p1) @ '' project''
               @ (if total ?p1 = Fin 1 then [] else ''s'') @ ''**'' @ [CHR 0x0A, CHR 0x0A]
               @ ''| Project | Address | Zoning | Zone Type | ID |'' @ [CHR 0x0A]
               @ ''|---|---|---|---|---|'' @ [CHR 0x0A]
               @ join [CHR 0x0A] [''| Oak St | 1 Oak | R1 | Residential | `1` |'']
               @ (if gt5 (total ?p1)
                  then [CHR 0x0A, CHR 0x0A] @ ''_Showing 5 of '' @ num_String ?R (total ?p1) @ '' results._''
                  else []))"
    by (rule thm1 [THEN conjunct2, THEN conjunct1, rule_format, OF t1, THEN conjunct2])
  have b: "renderSearch ?R ?p2 =
          Inr (''**Found '' @ num_String ?R (total ?p2) @ '' project''
               @ (if total ?p2 = Fin 1 then [] else ''s'') @ ''**'' @ [CHR 0x0A, CHR 0x0A]
               @ ''| Project | Address | Zoning | Zone Type | ID |'' @ [CHR 0x0A]
               @ ''|---|---|---|---|---|'' @ [CHR 0x0A]
               @ join [CHR 0x0A] [''| A'' @ [CHR 0x5C] @ ''|B | '' @ em_dash @ '' | '' @ em_dash @ '' | '' @ em_dash @ '' | `'' @ em_dash @ ''` |'',
                       ?blank, ?blank, ?blank, ?blank]
               @ (if gt5 (total ?p2)
                  then [CHR 0x0A, CHR 0x0A] @ ''_Showing 5 of '' @ num_String ?R (total ?p2) @ '' results._''
                  else []))"
    by (rule thm2 [THEN conjunct2, THEN conjunct1, rule_format, OF t2, THEN conjunct2])
  have c: "renderSearch ?R ?p3 = Inr ''No matching projects found.''"
    by (rule thm3 [THEN conjunct1, rule_format, OF t3])
  have d: "renderSearch ?R ?p4 = Inl (TypeError ''Cannot read properties of null (reading 'projectName')'')"
    by (rule thm4 [THEN conjunct2, THEN conjunct2, THEN conjunct1, rule_format, OF t4])
  show ?thesis
    unfolding a b c d
    by (simp add: n1 n12 gt5_def)
qed

end
